theory Spec2Isabelle
  imports Complex_Main
begin

section \<open>Python values used by the scripts\<close>

text \<open>
  The scripts are Python. Every exception they can meet in the parts modelled here is an
  instance of Python's class \<open>Exception\<close>; the constructor says which subclass, and
  carries the text that \<open>str(e)\<close> gives.
\<close>

datatype exn =
    IndexError string
  | AttributeError string
  | TypeError string
  | FileNotFoundError string
  | PlaywrightError string

fun str_exn :: "exn \<Rightarrow> string" where
  "str_exn (IndexError m) = m"
| "str_exn (AttributeError m) = m"
| "str_exn (TypeError m) = m"
| "str_exn (FileNotFoundError m) = m"
| "str_exn (PlaywrightError m) = m"

text \<open>\<open>s.startswith(p)\<close>.\<close>

definition startswith :: "string \<Rightarrow> string \<Rightarrow> bool" where
  "startswith s p = (take (length p) s = p)"

text \<open>
  \<open>s.split(sep)\<close> for a separator of one character: the fields between the
  separators, in order; a string without the separator is its own single field.
\<close>

fun py_split :: "char \<Rightarrow> string \<Rightarrow> string list" where
  "py_split sep [] = [[]]"
| "py_split sep (c # s) =
     (if c = sep then [] # py_split sep s
      else (case py_split sep s of
              [] \<Rightarrow> [[c]]
            | w # ws \<Rightarrow> (c # w) # ws))"

text \<open>\<open>xs[0]\<close>, which raises IndexError on the empty list.\<close>

definition index0 :: "'a list \<Rightarrow> exn + 'a" where
  "index0 xs = (case xs of
                  [] \<Rightarrow> Inl (IndexError ''list index out of range'')
                | x # _ \<Rightarrow> Inr x)"

section \<open>The component classifier (html_parser.py, history_parser.py)\<close>

text \<open>
  A BeautifulSoup tag, as far as the scripts look at it: the value of its \<open>class\<close>
  attribute (the parser \<open>html.parser\<close> gives the list of class tokens in the order of
  the markup, and \<open>None\<close> here stands for a tag without the attribute) and its
  \<open>.string\<close>. A lookup that finds nothing returns Python's \<open>None\<close>, so the argument
  of the classifier is a \<open>tag option\<close>; a tag object itself is always truthy.
\<close>

record tag =
  tag_class :: "string list option"
  tag_string :: "string option"

text \<open>\<open>tag.get("class", [])\<close>.\<close>

definition get_class :: "tag \<Rightarrow> string list" where
  "get_class t = (case tag_class t of None \<Rightarrow> [] | Some cs \<Rightarrow> cs)"

text \<open>
  The loop \<open>for cls in classes\<close> with its early return, and the final
  \<open>return "Unknown"\<close>.
\<close>

fun mui_loop :: "string list \<Rightarrow> exn + string" where
  "mui_loop [] = Inr ''Unknown''"
| "mui_loop (cls # classes) =
     (if startswith cls ''Mui'' then index0 (py_split (CHR ''-'') cls)
      else mui_loop classes)"

definition get_mui_component :: "tag option \<Rightarrow> exn + string" where
  "get_mui_component t =
     (case t of
        None \<Rightarrow> Inr ''Unknown''
      | Some tg \<Rightarrow> mui_loop (get_class tg))"

section \<open>The two report scripts and the report file\<close>

text \<open>
  Both scripts read \<open>page.html\<close> and write \<open>application_map.md\<close> in the working
  directory. The file system is these two files, each absent (\<open>None\<close>) or holding a
  text.
\<close>

record files =
  page_html :: "string option"
  application_map :: "string option"

text \<open>
  \<open>open("application_map.md", "w")\<close> creates the file or empties it;
  \<open>open("application_map.md", "a")\<close> creates it when it is absent and otherwise keeps
  what it holds; every \<open>f.write\<close> then puts its text at the end.
\<close>

definition open_w :: "string option \<Rightarrow> string" where
  "open_w old = []"

definition open_a :: "string option \<Rightarrow> string" where
  "open_a old = (case old of None \<Rightarrow> [] | Some content \<Rightarrow> content)"

text \<open>
  The statements \<open>f.write(...)\<close> of a \<open>with\<close> block, in order. The argument of each
  is computed before the call, and may raise; the block is then left, and the file keeps
  what was written before.
\<close>

fun write_all :: "(exn + string) list \<Rightarrow> string \<Rightarrow> exn option \<times> string" where
  "write_all [] content = (None, content)"
| "write_all (Inl e # rest) content = (Some e, content)"
| "write_all (Inr s # rest) content = write_all rest (content @ s)"

text \<open>An f-string with one interpolated classification: \<open>f"pre{get_mui_component(t)}post"\<close>.\<close>

definition fmt :: "string \<Rightarrow> exn + string \<Rightarrow> string \<Rightarrow> exn + string" where
  "fmt pre r post = (case r of Inl e \<Rightarrow> Inl e | Inr s \<Rightarrow> Inr (pre @ s @ post))"

text \<open>\<open>str(x)\<close> of a value that is a string or \<open>None\<close>, as an f-string prints it.\<close>

definition str_opt :: "string option \<Rightarrow> string" where
  "str_opt x = (case x of None \<Rightarrow> ''None'' | Some s \<Rightarrow> s)"

subsection \<open>history_parser.py\<close>

text \<open>
  What the script looks up in the parsed document. \<open>soup.find\<close> gives a tag or
  \<open>None\<close>. For the two tables the script finds an \<open>h6\<close> by its text and calls
  \<open>find_next("table")\<close> on the result: the outer option is the heading, the inner one
  the table after it.
\<close>

record history_doc =
  start_date_textbox :: "tag option"
  end_date_textbox :: "tag option"
  reset_button :: "tag option"
  ready_to_continue_h6 :: "tag option option"
  completed_decks_h6 :: "tag option option"

text \<open>\<open>x.find_next("table")\<close> where \<open>x\<close> is the result of \<open>soup.find\<close>.\<close>

definition find_next_table :: "tag option option \<Rightarrow> exn + tag option" where
  "find_next_table h6 =
     (case h6 of
        None \<Rightarrow> Inl (AttributeError
                  (CHR 0x27 # ''NoneType'' @ CHR 0x27 # '' object has no attribute '' @
                   CHR 0x27 # ''find_next'' @ [CHR 0x27]))
      | Some table \<Rightarrow> Inr table)"

definition history_lines :: "history_doc \<Rightarrow> tag option \<Rightarrow> tag option \<Rightarrow> (exn + string) list" where
  "history_lines d ready_to_continue_table completed_decks_table =
     [Inr ''  - **History Page** (`/history`)\<newline>'',
      fmt ''    - **Start Date Textbox:** `'' (get_mui_component (start_date_textbox d)) ''`\<newline>'',
      fmt ''    - **End Date Textbox:** `'' (get_mui_component (end_date_textbox d)) ''`\<newline>'',
      fmt ''    - **Reset Button:** `'' (get_mui_component (reset_button d)) ''`\<newline>'',
      fmt ''    - **Ready to Continue Table:** `'' (get_mui_component ready_to_continue_table) ''`\<newline>'',
      fmt ''    - **Completed Decks Table:** `'' (get_mui_component completed_decks_table) ''`\<newline>'']"

text \<open>
  The whole script. \<open>soup\<close> stands for parsing with BeautifulSoup and the lookups on
  the result. The script returns the exception that ended it, if any, and the files as it
  left them.
\<close>

definition history_parser :: "(string \<Rightarrow> history_doc) \<Rightarrow> files \<Rightarrow> exn option \<times> files" where
  "history_parser soup fs =
     (case page_html fs of
        None \<Rightarrow> (Some (FileNotFoundError ''page.html''), fs)
      | Some html_content \<Rightarrow>
          (let d = soup html_content in
           case find_next_table (ready_to_continue_h6 d) of
             Inl e \<Rightarrow> (Some e, fs)
           | Inr ready_to_continue_table \<Rightarrow>
               (case find_next_table (completed_decks_h6 d) of
                  Inl e \<Rightarrow> (Some e, fs)
                | Inr completed_decks_table \<Rightarrow>
                    (let (r, content) =
                           write_all (history_lines d ready_to_continue_table completed_decks_table)
                             (open_a (application_map fs))
                     in (r, fs\<lparr>application_map := Some content\<rparr>)))))"

subsection \<open>html_parser.py\<close>

text \<open>
  The dashboard script searches inside the \<open>header\<close> element and inside the main grid
  \<open>div\<close>; calling \<open>.find\<close> on a missing one raises.
\<close>

record header_doc =
  logo :: "tag option"
  tabs :: "tag list"
  logout_button :: "tag option"

record main_doc =
  search_bar :: "tag option"
  update_master_list_button :: "tag option"
  create_collection_deck_button :: "tag option"
  add_scc_button :: "tag option"
  sccs_table :: "tag option"

record dashboard_doc =
  header :: "header_doc option"
  main_content :: "main_doc option"

definition none_has_no_find :: exn where
  "none_has_no_find =
     AttributeError (CHR 0x27 # ''NoneType'' @ CHR 0x27 # '' object has no attribute '' @
                     CHR 0x27 # ''find'' @ [CHR 0x27])"

definition tab_line :: "tag \<Rightarrow> exn + string" where
  "tab_line tab =
     fmt (''      - **'' @ str_opt (tag_string tab) @ '':** `'') (get_mui_component (Some tab))
       ''`\<newline>''"

definition dashboard_lines :: "header_doc \<Rightarrow> main_doc \<Rightarrow> (exn + string) list" where
  "dashboard_lines h m =
     [Inr ''- **VUE Dashboard** (`/`)\<newline>'',
      Inr ''  - **Header**\<newline>'',
      fmt ''    - **VUE Logo:** `'' (get_mui_component (logo h)) ''`\<newline>'',
      Inr ''    - **Navigation Links:**\<newline>''] @
     map tab_line (tabs h) @
     [fmt ''    - **Logout Button:** `'' (get_mui_component (logout_button h)) ''`\<newline>'',
      Inr ''  - **Main Content Area**\<newline>'',
      fmt ''    - **Search SCCs...:** `'' (get_mui_component (search_bar m)) ''`\<newline>'',
      fmt ''    - **\"Update Master List\" Button:** `''
        (get_mui_component (update_master_list_button m)) ''`\<newline>'',
      fmt ''    - **\"Create Collection Deck\" Button:** `''
        (get_mui_component (create_collection_deck_button m)) ''`\<newline>'',
      fmt ''    - **\"ADD SCC\" Button:** `'' (get_mui_component (add_scc_button m)) ''`\<newline>'',
      fmt ''    - **SCCs Table:** `'' (get_mui_component (sccs_table m)) ''`\<newline>'']"

definition html_parser :: "(string \<Rightarrow> dashboard_doc) \<Rightarrow> files \<Rightarrow> exn option \<times> files" where
  "html_parser soup fs =
     (case page_html fs of
        None \<Rightarrow> (Some (FileNotFoundError ''page.html''), fs)
      | Some html_content \<Rightarrow>
          (let d = soup html_content in
           case header d of
             None \<Rightarrow> (Some none_has_no_find, fs)
           | Some h \<Rightarrow>
               (case main_content d of
                  None \<Rightarrow> (Some none_has_no_find, fs)
                | Some m \<Rightarrow>
                    (let (r, content) = write_all (dashboard_lines h m) (open_w (application_map fs))
                     in (r, fs\<lparr>application_map := Some content\<rparr>)))))"

section \<open>The accessibility audit (quick-ux-test.py)\<close>

subsection \<open>What the page's own script counts\<close>

text \<open>
  The script evaluated in the page walks four node lists. Of each \<open>img\<close> only whether
  its \<open>alt\<close> attribute is present and non-blank matters, of each form control only
  whether one of the four label tests is truthy, of each heading only the digit of its tag
  name (\<open>h1\<close> .. \<open>h6\<close>); the other selectors are only counted.
\<close>

record dom_page =
  imgs_alt :: "bool list"
  controls_labeled :: "bool list"
  heading_levels :: "nat list"
  focusable_count :: nat
  landmark_count :: nat
  skiplink_count :: nat

text \<open>
  \<open>images.forEach(img => { if (alt && alt.trim().length > 0) imagesWithAlt++; })\<close>
  and the same loop for the labels: a counter that starts at 0.
\<close>

fun count_true :: "bool list \<Rightarrow> nat \<Rightarrow> nat" where
  "count_true [] n = n"
| "count_true (b # bs) n = count_true bs (if b then n + 1 else n)"

text \<open>
  The heading walk. The state is \<open>(headingIssues, lastLevel)\<close>, both starting at 0:
  \<open>if (level > lastLevel + 1) headingIssues++; lastLevel = level;\<close>
\<close>

fun heading_walk :: "nat list \<Rightarrow> nat \<times> nat \<Rightarrow> nat \<times> nat" where
  "heading_walk [] st = st"
| "heading_walk (level # rest) (headingIssues, lastLevel) =
     heading_walk rest
       (if level > lastLevel + 1 then headingIssues + 1 else headingIssues, level)"

definition hierarchyIssues :: "nat list \<Rightarrow> nat" where
  "hierarchyIssues levels = fst (heading_walk levels (0, 0))"

text \<open>
  The heading rule as the specification words it: one issue for each position whose
  level exceeds the level of the heading before it by more than one. The first heading has
  no heading before it, so the positions start at 1.
\<close>

definition spec_heading_issues :: "nat list \<Rightarrow> nat" where
  "spec_heading_issues levels =
     length (filter (\<lambda>i. levels ! i > levels ! (i - 1) + 1) [1..<length levels])"

record accessibility_data =
  images_total :: nat
  images_withAlt :: nat
  forms_total :: nat
  forms_labeled :: nat
  headings_total :: nat
  headings_hierarchyIssues :: nat
  navigation_focusableElements :: nat
  navigation_landmarks :: nat
  navigation_skipLinks :: nat

definition collect_accessibility :: "dom_page \<Rightarrow> accessibility_data" where
  "collect_accessibility p =
     \<lparr>images_total = length (imgs_alt p),
      images_withAlt = count_true (imgs_alt p) 0,
      forms_total = length (controls_labeled p),
      forms_labeled = count_true (controls_labeled p) 0,
      headings_total = length (heading_levels p),
      headings_hierarchyIssues = hierarchyIssues (heading_levels p),
      navigation_focusableElements = focusable_count p,
      navigation_landmarks = landmark_count p,
      navigation_skipLinks = skiplink_count p\<rparr>"

subsection \<open>The score\<close>

text \<open>
  Python computes the score in binary64: \<open>/\<close> on two ints and every \<open>*\<close> and \<open>+\<close> with
  a float operand return the exact result rounded to the nearest float. The rounding is the
  parameter \<open>fl\<close>; the identity gives exact arithmetic. Sums of two ints are exact in
  Python, and every such sum below is an integer between 0 and 100, which a rounding
  that fixes these integers leaves alone.

  \<open>max(0, 20 - issues * 5)\<close> is integer arithmetic and can pass through negative
  numbers, so it is computed in \<open>int\<close>.
\<close>

definition accessibility_score :: "(real \<Rightarrow> real) \<Rightarrow> accessibility_data \<Rightarrow> real" where
  "accessibility_score fl d =
     (let score = 0;
          score = (if images_total d > 0
                   then fl (score + fl (fl (real (images_withAlt d) / real (images_total d)) * 20))
                   else fl (score + 20));
          score = (if forms_total d > 0
                   then fl (score + fl (fl (real (forms_labeled d) / real (forms_total d)) * 30))
                   else fl (score + 30));
          score = fl (score + real (min (navigation_landmarks d * 5) 20));
          score = (if headings_total d > 0
                   then fl (score + real_of_int (max 0 (20 - int (headings_hierarchyIssues d) * 5)))
                   else score);
          score = (if navigation_focusableElements d > 0 then fl (score + 10) else score)
      in score)"

text \<open>Python's \<open>round(x)\<close> with one argument: the nearest integer, a tie going to the even one.\<close>

definition py_round :: "real \<Rightarrow> int" where
  "py_round x =
     (let f = \<lfloor>x\<rfloor>; d = x - of_int f
      in if d < 1 / 2 then f
         else if d > 1 / 2 then f + 1
         else if even f then f else f + 1)"

text \<open>\<open>results['accessibility']['score']\<close> and \<open>['grade']\<close>.\<close>

definition score_field :: "(real \<Rightarrow> real) \<Rightarrow> accessibility_data \<Rightarrow> int" where
  "score_field fl d = py_round (accessibility_score fl d)"

definition grade_field :: "(real \<Rightarrow> real) \<Rightarrow> accessibility_data \<Rightarrow> string" where
  "grade_field fl d =
     (let s = accessibility_score fl d
      in if s \<ge> 90 then ''A'' else if s \<ge> 80 then ''B'' else if s \<ge> 70 then ''C'' else ''D'')"

text \<open>
  What the properties below ask of the float rounding: it is monotone, and the integers
  from 0 to 100 are floats. Round-to-nearest of binary64 is such a function, and so is the
  identity.
\<close>

definition float_rounding :: "(real \<Rightarrow> real) \<Rightarrow> bool" where
  "float_rounding fl = (mono fl \<and> (\<forall>n \<le> 100. fl (real n) = real n))"

section \<open>The interaction probe (quick-ux-test.py)\<close>

text \<open>
  The probe works on live element handles. In one run every operation is called at most
  once on each element, so a run is described by giving each element the outcome of each
  of its operations: the value returned, or the exception raised (Playwright raises its
  \<open>Error\<close> and \<open>TimeoutError\<close>, subclasses of \<open>Exception\<close>). The page-level calls
  made while an element is probed (screenshots, waits) are listed with that element.
  \<open>text_content()\<close> and \<open>get_attribute()\<close> return a string or \<open>None\<close>.
\<close>

record button =
  text_content :: "exn + string option"
  is_enabled :: "exn + bool"
  screenshot_before :: "exn option"
  click :: "exn option"
  wait_after_click :: "exn option"
  screenshot_after :: "exn option"

record input_elem =
  attribute_type :: "exn + string option"
  attribute_placeholder :: "exn + string option"
  fill :: "exn option"
  wait_after_fill :: "exn option"
  input_value :: "exn + string"

text \<open>The calls made on the browser, in the order they are made; the number is the
  index \<open>i\<close> of the element in its list.\<close>

datatype call =
    Text_content nat
  | Is_enabled nat
  | Screenshot_before nat
  | Click nat
  | Screenshot_after nat
  | Wait_for_timeout nat
  | Get_attribute nat string
  | Fill nat string
  | Input_value nat

text \<open>The result records are Python dicts with string keys, in insertion order.\<close>

datatype pyval = PNone | PBool bool | PInt int | PStr string

type_synonym dict = "(string \<times> pyval) list"

definition py_opt_str :: "string option \<Rightarrow> pyval" where
  "py_opt_str x = (case x of None \<Rightarrow> PNone | Some s \<Rightarrow> PStr s)"

text \<open>
  The state of a probe loop: the list the loop appends to (\<open>interaction_results\<close> or
  \<open>input_results\<close>) and the calls made so far.
\<close>

record pstate =
  results :: "dict list"
  calls :: "call list"

definition do_call :: "call \<Rightarrow> pstate \<Rightarrow> pstate" where
  "do_call c st = st\<lparr>calls := calls st @ [c]\<rparr>"

definition append_result :: "dict \<Rightarrow> pstate \<Rightarrow> pstate" where
  "append_result r st = st\<lparr>results := results st @ [r]\<rparr>"

text \<open>\<open>text[:n]\<close>; slicing \<open>None\<close> raises TypeError.\<close>

definition slice_to :: "nat \<Rightarrow> string option \<Rightarrow> exn + string" where
  "slice_to n text =
     (case text of
        None \<Rightarrow> Inl (TypeError (CHR 0x27 # ''NoneType'' @ CHR 0x27 # '' object is not subscriptable''))
      | Some s \<Rightarrow> Inr (take n s))"

text \<open>
  The body of the \<open>try\<close> for button \<open>i\<close>: the exception that left it, if any, and the
  state. The first \<open>print\<close> slices the text, which is the only way it matters here; the
  other prints are left out.
\<close>

definition button_try :: "nat \<Rightarrow> button \<Rightarrow> pstate \<Rightarrow> exn option \<times> pstate" where
  "button_try i b st =
     (let st = do_call (Text_content i) st in
      case text_content b of
        Inl e \<Rightarrow> (Some e, st)
      | Inr text \<Rightarrow>
     (let st = do_call (Is_enabled i) st in
      case is_enabled b of
        Inl e \<Rightarrow> (Some e, st)
      | Inr enabled \<Rightarrow>
     (case slice_to 25 text of
        Inl e \<Rightarrow> (Some e, st)
      | Inr shown \<Rightarrow>
      if enabled then
       (let st = do_call (Screenshot_before i) st in
        case screenshot_before b of
          Some e \<Rightarrow> (Some e, st)
        | None \<Rightarrow>
       (let st = do_call (Click i) st in
        case click b of
          Some e \<Rightarrow> (Some e, st)
        | None \<Rightarrow>
       (let st = do_call (Wait_for_timeout 750) st in
        case wait_after_click b of
          Some e \<Rightarrow> (Some e, st)
        | None \<Rightarrow>
       (let st = do_call (Screenshot_after i) st in
        case screenshot_after b of
          Some e \<Rightarrow> (Some e, st)
        | None \<Rightarrow>
       (case slice_to 50 text of
          Inl e \<Rightarrow> (Some e, st)
        | Inr t \<Rightarrow>
            (None, append_result
                     [(''button'', PInt (int i + 1)), (''text'', PStr t), (''success'', PBool True)]
                     st))))))
      else (None, st))))"

text \<open>The \<open>try\<close> with its handler \<open>except Exception as e\<close>.\<close>

definition probe_button :: "nat \<Rightarrow> button \<Rightarrow> pstate \<Rightarrow> pstate" where
  "probe_button i b st =
     (case button_try i b st of
        (None, st') \<Rightarrow> st'
      | (Some e, st') \<Rightarrow>
          append_result
            [(''button'', PInt (int i + 1)), (''success'', PBool False),
             (''error'', PStr (take 100 (str_exn e)))]
            st')"

text \<open>\<open>for i, button in enumerate(...)\<close>, from index \<open>i\<close> on.\<close>

fun button_loop :: "nat \<Rightarrow> button list \<Rightarrow> pstate \<Rightarrow> pstate" where
  "button_loop i [] st = st"
| "button_loop i (b # bs) st = button_loop (i + 1) bs (probe_button i b st)"

definition input_try :: "nat \<Rightarrow> input_elem \<Rightarrow> pstate \<Rightarrow> exn option \<times> pstate" where
  "input_try i inp st =
     (let st = do_call (Get_attribute i ''type'') st in
      case attribute_type inp of
        Inl e \<Rightarrow> (Some e, st)
      | Inr input_type \<Rightarrow>
     (let st = do_call (Get_attribute i ''placeholder'') st in
      case attribute_placeholder inp of
        Inl e \<Rightarrow> (Some e, st)
      | Inr placeholder \<Rightarrow>
      if input_type \<in> set [Some ''text'', Some ''search'', Some ''email'', Some ''number'', None] then
       (let st = do_call (Fill i ''test value'') st in
        case fill inp of
          Some e \<Rightarrow> (Some e, st)
        | None \<Rightarrow>
       (let st = do_call (Wait_for_timeout 300) st in
        case wait_after_fill inp of
          Some e \<Rightarrow> (Some e, st)
        | None \<Rightarrow>
       (let st = do_call (Input_value i) st in
        case input_value inp of
          Inl e \<Rightarrow> (Some e, st)
        | Inr v \<Rightarrow>
            (None, append_result
                     [(''input'', PInt (int i + 1)), (''type'', py_opt_str input_type),
                      (''success'', PBool True), (''testValue'', PStr v)]
                     st))))
      else (None, st)))"

definition probe_input :: "nat \<Rightarrow> input_elem \<Rightarrow> pstate \<Rightarrow> pstate" where
  "probe_input i inp st =
     (case input_try i inp st of
        (None, st') \<Rightarrow> st'
      | (Some e, st') \<Rightarrow>
          append_result
            [(''input'', PInt (int i + 1)), (''success'', PBool False),
             (''error'', PStr (take 100 (str_exn e)))]
            st')"

fun input_loop :: "nat \<Rightarrow> input_elem list \<Rightarrow> pstate \<Rightarrow> pstate" where
  "input_loop i [] st = st"
| "input_loop i (inp # inps) st = input_loop (i + 1) inps (probe_input i inp st)"

text \<open>
  The two loops as the script runs them: \<open>interaction_results = []\<close>, the first four
  buttons; then \<open>input_results = []\<close>, the first three inputs.
\<close>

definition probe_buttons :: "button list \<Rightarrow> pstate" where
  "probe_buttons buttons = button_loop 0 (take 4 buttons) \<lparr>results = [], calls = []\<rparr>"

definition probe_inputs :: "input_elem list \<Rightarrow> pstate" where
  "probe_inputs inputs = input_loop 0 (take 3 inputs) \<lparr>results = [], calls = []\<rparr>"

text \<open>What one element contributes when it is probed on its own.\<close>

definition button_alone :: "nat \<Rightarrow> button \<Rightarrow> pstate" where
  "button_alone i b = probe_button i b \<lparr>results = [], calls = []\<rparr>"

definition input_alone :: "nat \<Rightarrow> input_elem \<Rightarrow> pstate" where
  "input_alone i inp = probe_input i inp \<lparr>results = [], calls = []\<rparr>"

section \<open>The performance grade (quick-ux-test.py)\<close>

text \<open>
  \<open>load_time\<close> is the wall-clock time in seconds from before \<open>page.goto\<close> to its
  return at network idle; the report stores \<open>load_time * 1000\<close> as
  \<open>totalLoadTime\<close> (milliseconds) next to the grade. Times are modelled as exact reals.
\<close>

definition totalLoadTime :: "real \<Rightarrow> real" where
  "totalLoadTime load_time = load_time * 1000"

definition performance_grade :: "real \<Rightarrow> string" where
  "performance_grade load_time =
     (if load_time < 2 then ''excellent''
      else if load_time < 4 then ''good''
      else ''needs-improvement'')"

section \<open>A browser run (test_history_headers.py, quick-ux-test.py)\<close>

text \<open>
  What a call made during a run can raise: an instance of \<open>Exception\<close>, or an
  exception outside that class (\<open>KeyboardInterrupt\<close>, \<open>SystemExit\<close>), which
  \<open>except Exception\<close> does not catch.
\<close>

datatype raised = Error exn | Interrupt

text \<open>
  Both scripts have the same frame: enter the Playwright context manager, launch the
  browser, open a page, then \<open>try: ... except Exception: ... finally: browser.close()\<close>,
  and leave the context manager. A run records the calls of this frame in order, and the
  state of the browser. Leaving the Playwright context manager stops the driver, which
  ends every browser it launched that is still open; the state \<open>Killed\<close> tells this
  apart from a browser closed by \<open>browser.close()\<close>.
\<close>

datatype event =
    Playwright_start
  | Launch
  | New_context
  | New_page
  | Try_block
  | Browser_close
  | Playwright_stop

datatype browser_state = Not_launched | Open | Closed | Killed

record 'a run =
  returned :: "raised + 'a"
  events :: "event list"
  browser :: browser_state

text \<open>
  The \<open>finally\<close> clause: \<open>browser.close()\<close>. An exception raised by it replaces
  the outcome of the \<open>try\<close>; nothing is then known of the browser, which is left as it
  was.
\<close>

definition finally_close :: "raised option \<Rightarrow> 'a run \<Rightarrow> 'a run" where
  "finally_close close_outcome r =
     (case close_outcome of
        None \<Rightarrow> r\<lparr>events := events r @ [Browser_close], browser := Closed\<rparr>
      | Some x \<Rightarrow> r\<lparr>returned := Inl x, events := events r @ [Browser_close]\<rparr>)"

text \<open>Leaving \<open>with sync_playwright() as p\<close> or \<open>async with async_playwright() as p\<close>.\<close>

definition playwright_exit :: "'a run \<Rightarrow> 'a run" where
  "playwright_exit r =
     r\<lparr>events := events r @ [Playwright_stop],
       browser := (if browser r = Open then Killed else browser r)\<rparr>"

subsection \<open>test_history_headers.py\<close>

text \<open>
  The environment of one run of the header check: the outcome of each call that can fail,
  and what the page answers. \<open>text_matches h\<close> is the number of elements that
  \<open>page.locator("text=h").all()\<close> returns, \<open>thead_count\<close> and \<open>table_count\<close> the
  numbers of \<open>thead\<close> and \<open>table\<close> elements, \<open>thead_text_content\<close> the outcome of
  \<open>page.locator("thead").text_content()\<close>.
\<close>

record history_env =
  start_result :: "raised option"
  launch_result :: "raised option"
  new_page_result :: "raised option"
  goto_result :: "raised option"
  screenshot_result :: "raised option"
  text_matches :: "string \<Rightarrow> nat"
  thead_count :: nat
  thead_text_content :: "raised + string option"
  table_count :: nat
  close_result :: "raised option"

definition headers_to_check :: "string list" where
  "headers_to_check =
     [''Deck Name'', ''Deck Status'', ''Processing Status'', ''Progress'', ''Created'',
      ''Completed'', ''Actions'']"

text \<open>\<open>p in s\<close> for strings: \<open>p\<close> occurs in \<open>s\<close> as a substring.\<close>

fun str_contains :: "string \<Rightarrow> string \<Rightarrow> bool" where
  "str_contains [] p = (p = [])"
| "str_contains (c # s) p = (startswith (c # s) p \<or> str_contains s p)"

text \<open>The dict \<open>header_counts\<close>, filled in the order of \<open>headers_to_check\<close>.\<close>

definition header_counts :: "history_env \<Rightarrow> (string \<times> nat) list" where
  "header_counts env = map (\<lambda>header. (header, text_matches env header)) headers_to_check"

text \<open>
  The header location check. It sets \<open>headers_in_thead\<close> only when there is a
  \<open>thead\<close>; \<open>header in thead_text\<close> raises TypeError when the text is \<open>None\<close>.
\<close>

definition headers_in_thead :: "history_env \<Rightarrow> raised + bool option" where
  "headers_in_thead env =
     (if thead_count env > 0 then
        (case thead_text_content env of
           Inl x \<Rightarrow> Inl x
         | Inr None \<Rightarrow>
             Inl (Error (TypeError (''argument of type '' @ CHR 0x27 # ''NoneType'' @
                                    CHR 0x27 # '' is not iterable'')))
         | Inr (Some thead_text) \<Rightarrow>
             Inr (Some (list_all (\<lambda>header. str_contains thead_text header) headers_to_check)))
      else Inr None)"

text \<open>The overall assessment: \<open>total_issues\<close>.\<close>

definition total_issues :: "history_env \<Rightarrow> nat" where
  "total_issues env =
     (let missing_headers = map fst (filter (\<lambda>(h, c). c = 0) (header_counts env));
          duplicate_headers = map fst (filter (\<lambda>(h, c). c > 1) (header_counts env));
          total_issues = 0;
          total_issues = (if missing_headers \<noteq> [] then total_issues + length missing_headers
                          else total_issues);
          total_issues = (if duplicate_headers \<noteq> [] then total_issues + length duplicate_headers
                          else total_issues);
          total_issues = (if thead_count env = 0 then total_issues + 1
                          else if thead_count env > 1 then total_issues + 1
                          else total_issues)
      in total_issues)"

text \<open>
  The body of the \<open>try\<close>: navigation, screenshot, the counts, the location check, the
  assessment, and \<open>return total_issues == 0\<close>. The table count and the listing of
  duplicates only print (the listing has its own bare \<open>except\<close>).
\<close>

definition history_try :: "history_env \<Rightarrow> raised + bool" where
  "history_try env =
     (case goto_result env of
        Some x \<Rightarrow> Inl x
      | None \<Rightarrow>
     (case screenshot_result env of
        Some x \<Rightarrow> Inl x
      | None \<Rightarrow>
     (case headers_in_thead env of
        Inl x \<Rightarrow> Inl x
      | Inr in_thead \<Rightarrow> Inr (total_issues env = 0))))"

text \<open>\<open>except Exception as e: ... return False\<close>.\<close>

definition history_handled :: "history_env \<Rightarrow> raised + bool" where
  "history_handled env =
     (case history_try env of
        Inl (Error e) \<Rightarrow> Inr False
      | Inl Interrupt \<Rightarrow> Inl Interrupt
      | Inr success \<Rightarrow> Inr success)"

definition test_history_table :: "history_env \<Rightarrow> bool run" where
  "test_history_table env =
     (case start_result env of
        Some x \<Rightarrow> \<lparr>returned = Inl x, events = [Playwright_start], browser = Not_launched\<rparr>
      | None \<Rightarrow>
          playwright_exit
            (case launch_result env of
               Some x \<Rightarrow>
                 \<lparr>returned = Inl x, events = [Playwright_start, Launch], browser = Not_launched\<rparr>
             | None \<Rightarrow>
            (case new_page_result env of
               Some x \<Rightarrow>
                 \<lparr>returned = Inl x, events = [Playwright_start, Launch, New_page], browser = Open\<rparr>
             | None \<Rightarrow>
                 finally_close (close_result env)
                   \<lparr>returned = history_handled env,
                    events = [Playwright_start, Launch, New_page, Try_block],
                    browser = Open\<rparr>)))"

text \<open>
  \<open>success = test_history_table(); sys.exit(0 if success else 1)\<close>: the exit status
  the script asks for, or the exception that left \<open>test_history_table\<close>.
\<close>

definition history_main :: "history_env \<Rightarrow> raised + nat" where
  "history_main env =
     (case returned (test_history_table env) of
        Inl x \<Rightarrow> Inl x
      | Inr success \<Rightarrow> Inr (if success then 0 else 1))"

subsection \<open>quick-ux-test.py\<close>

text \<open>
  The frame of \<open>test_collection_app_ux\<close>. The body of its \<open>try\<close> (the whole audit)
  enters by its outcome: the results it returns, or what it raises. The handler prints and
  raises the exception again.
\<close>

record 'r ux_env =
  ux_start_result :: "raised option"
  ux_launch_result :: "raised option"
  ux_new_context_result :: "raised option"
  ux_new_page_result :: "raised option"
  ux_body_result :: "raised + 'r"
  ux_close_result :: "raised option"

definition ux_handled :: "'r ux_env \<Rightarrow> raised + 'r" where
  "ux_handled env =
     (case ux_body_result env of
        Inl (Error e) \<Rightarrow> Inl (Error e)
      | Inl Interrupt \<Rightarrow> Inl Interrupt
      | Inr res \<Rightarrow> Inr res)"

definition test_collection_app_ux :: "'r ux_env \<Rightarrow> 'r run" where
  "test_collection_app_ux env =
     (case ux_start_result env of
        Some x \<Rightarrow> \<lparr>returned = Inl x, events = [Playwright_start], browser = Not_launched\<rparr>
      | None \<Rightarrow>
          playwright_exit
            (case ux_launch_result env of
               Some x \<Rightarrow>
                 \<lparr>returned = Inl x, events = [Playwright_start, Launch], browser = Not_launched\<rparr>
             | None \<Rightarrow>
            (case ux_new_context_result env of
               Some x \<Rightarrow>
                 \<lparr>returned = Inl x, events = [Playwright_start, Launch, New_context],
                  browser = Open\<rparr>
             | None \<Rightarrow>
            (case ux_new_page_result env of
               Some x \<Rightarrow>
                 \<lparr>returned = Inl x, events = [Playwright_start, Launch, New_context, New_page],
                  browser = Open\<rparr>
             | None \<Rightarrow>
                 finally_close (ux_close_result env)
                   \<lparr>returned = ux_handled env,
                    events = [Playwright_start, Launch, New_context, New_page, Try_block],
                    browser = Open\<rparr>))))"

section \<open>Facts about the classifier\<close>

lemma py_split_not_Nil: "py_split sep s \<noteq> []"
  by (induction s) (auto split: list.splits)

lemma index0_py_split:
  "index0 (py_split sep s) = Inr (takeWhile (\<lambda>c. c \<noteq> sep) s)"
proof (induction s)
  case Nil
  show ?case by (simp add: index0_def)
next
  case (Cons c s)
  then show ?case
    by (cases "py_split sep s") (auto simp: index0_def py_split_not_Nil)
qed

lemma startswith_Mui_takeWhile:
  assumes "startswith s ''Mui''"
  shows "startswith (takeWhile (\<lambda>c. c \<noteq> CHR ''-'') s) ''Mui''"
proof -
  from assms obtain r where s: "s = CHR ''M'' # CHR ''u'' # CHR ''i'' # r"
    by (cases s; cases "tl s"; cases "tl (tl s)") (auto simp: startswith_def)
  show ?thesis by (simp add: s startswith_def)
qed

lemma mui_loop_first:
  assumes "i < length cs" and "startswith (cs ! i) ''Mui''"
    and "\<forall>j<i. \<not> startswith (cs ! j) ''Mui''"
  shows "mui_loop cs = Inr (takeWhile (\<lambda>c. c \<noteq> CHR ''-'') (cs ! i))"
  using assms
proof (induction cs arbitrary: i)
  case Nil
  then show ?case by simp
next
  case (Cons c cs)
  show ?case
  proof (cases i)
    case 0
    with Cons.prems show ?thesis by (simp add: index0_py_split)
  next
    case (Suc k)
    from Cons.prems(3) Suc have c: "\<not> startswith c ''Mui''" by auto
    have "\<forall>j<k. \<not> startswith (cs ! j) ''Mui''"
    proof (intro allI impI)
      fix j assume "j < k"
      then have "Suc j < i" using Suc by simp
      with Cons.prems(3) have "\<not> startswith ((c # cs) ! Suc j) ''Mui''" by blast
      then show "\<not> startswith (cs ! j) ''Mui''" by simp
    qed
    moreover from Cons.prems Suc have "k < length cs" "startswith (cs ! k) ''Mui''"
      by simp_all
    ultimately have "mui_loop cs = Inr (takeWhile (\<lambda>c. c \<noteq> CHR ''-'') (cs ! k))"
      by (rule Cons.IH[rotated 2])
    with c Suc show ?thesis by simp
  qed
qed

lemma mui_loop_none:
  "\<forall>c \<in> set cs. \<not> startswith c ''Mui'' \<Longrightarrow> mui_loop cs = Inr ''Unknown''"
  by (induction cs) auto

lemma mui_loop_shape:
  "mui_loop cs = Inr ''Unknown'' \<or>
   (\<exists>s. mui_loop cs = Inr s \<and> startswith s ''Mui'' \<and> CHR ''-'' \<notin> set s)"
proof (induction cs)
  case Nil
  show ?case by simp
next
  case (Cons c cs)
  show ?case
  proof (cases "startswith c ''Mui''")
    case True
    have "CHR ''-'' \<notin> set (takeWhile (\<lambda>x. x \<noteq> CHR ''-'') c)"
      by (auto dest: set_takeWhileD)
    with True show ?thesis
      by (simp add: index0_py_split startswith_Mui_takeWhile)
  next
    case False
    with Cons show ?thesis by simp
  qed
qed

text \<open>
  C1. For every node given to \<open>get_mui_component\<close>: an absent node gives
  \<open>"Unknown"\<close> and raises nothing; a node whose class list has, at position \<open>i\<close>, its
  first token starting with \<open>"Mui"\<close> gives that token cut before its first \<open>-\<close> (the
  whole token when it has none); a node none of whose class tokens starts with \<open>"Mui"\<close>
  gives \<open>"Unknown"\<close>. The classes \<open>["foo", "MuiButton-root", "bar"]\<close> give
  \<open>"MuiButton"\<close>.
\<close>

theorem get_mui_component_first_match:
  "get_mui_component None = Inr ''Unknown'' \<and>
   (i < length (get_class t) \<and> startswith (get_class t ! i) ''Mui'' \<and>
    (\<forall>j<i. \<not> startswith (get_class t ! j) ''Mui'') \<longrightarrow>
      get_mui_component (Some t) =
        Inr (takeWhile (\<lambda>c. c \<noteq> CHR ''-'') (get_class t ! i))) \<and>
   ((\<forall>c \<in> set (get_class t). \<not> startswith c ''Mui'') \<longrightarrow>
      get_mui_component (Some t) = Inr ''Unknown'') \<and>
   get_mui_component
     (Some \<lparr>tag_class = Some [''foo'', ''MuiButton-root'', ''bar''], tag_string = None\<rparr>) =
     Inr ''MuiButton''"
proof (intro conjI impI)
  show "get_mui_component None = Inr ''Unknown''"
    by (simp add: get_mui_component_def)
next
  assume "i < length (get_class t) \<and> startswith (get_class t ! i) ''Mui'' \<and>
    (\<forall>j<i. \<not> startswith (get_class t ! j) ''Mui'')"
  then show "get_mui_component (Some t) =
      Inr (takeWhile (\<lambda>c. c \<noteq> CHR ''-'') (get_class t ! i))"
    by (simp add: get_mui_component_def mui_loop_first)
next
  assume "\<forall>c \<in> set (get_class t). \<not> startswith c ''Mui''"
  then show "get_mui_component (Some t) = Inr ''Unknown''"
    by (simp add: get_mui_component_def mui_loop_none)
next
  show "get_mui_component
     (Some \<lparr>tag_class = Some [''foo'', ''MuiButton-root'', ''bar''], tag_string = None\<rparr>) =
     Inr ''MuiButton''"
    by (simp add: get_mui_component_def get_class_def startswith_def index0_def)
qed

theorem get_mui_component_first_match_witness:
  "(1::nat) < length (get_class \<lparr>tag_class = Some [''bp5-x'', ''MuiTable-root'', ''MuiPaper-x''],
                                 tag_string = None\<rparr>) \<and>
   get_mui_component (Some \<lparr>tag_class = Some [''bp5-x'', ''MuiTable-root'', ''MuiPaper-x''],
                            tag_string = None\<rparr>) = Inr ''MuiTable'' \<and>
   get_mui_component (Some \<lparr>tag_class = Some [''bp5-x'', ''btn''], tag_string = None\<rparr>) =
     Inr ''Unknown''"
  using get_mui_component_first_match
          [of 1 "\<lparr>tag_class = Some [''bp5-x'', ''MuiTable-root'', ''MuiPaper-x''],
                   tag_string = None\<rparr>"]
        get_mui_component_first_match
          [of 0 "\<lparr>tag_class = Some [''bp5-x'', ''btn''], tag_string = None\<rparr>"]
  by (simp add: get_class_def startswith_def less_Suc_eq)

text \<open>
  C10. Whatever node is given, \<open>get_mui_component\<close> returns either the sentinel
  \<open>"Unknown"\<close> or a string that starts with \<open>"Mui"\<close> and has no \<open>-\<close> in it; the class
  token \<open>"Mui"\<close>, which has no separator, is returned whole.
\<close>

theorem get_mui_component_label_shape:
  "(get_mui_component n = Inr ''Unknown'' \<or>
    (\<exists>s. get_mui_component n = Inr s \<and> startswith s ''Mui'' \<and> CHR ''-'' \<notin> set s)) \<and>
   get_mui_component (Some \<lparr>tag_class = Some [''Mui''], tag_string = None\<rparr>) = Inr ''Mui''"
proof
  show "get_mui_component n = Inr ''Unknown'' \<or>
    (\<exists>s. get_mui_component n = Inr s \<and> startswith s ''Mui'' \<and> CHR ''-'' \<notin> set s)"
  proof (cases n)
    case None
    then show ?thesis by (simp add: get_mui_component_def)
  next
    case (Some t)
    then show ?thesis
      using mui_loop_shape[of "get_class t"] by (simp add: get_mui_component_def)
  qed
next
  show "get_mui_component (Some \<lparr>tag_class = Some [''Mui''], tag_string = None\<rparr>) = Inr ''Mui''"
    by (simp add: get_mui_component_def get_class_def startswith_def index0_def)
qed

section \<open>The heading walk and the performance grade\<close>

lemma heading_walk_fst:
  "fst (heading_walk ls (n, prev)) =
     n + length (filter (\<lambda>i. (prev # ls) ! Suc i > (prev # ls) ! i + 1) [0..<length ls])"
proof (induction ls arbitrary: n prev)
  case Nil
  show ?case by simp
next
  case (Cons l ls)
  have upt: "[0..<length (l # ls)] = 0 # map Suc [0..<length ls]"
    by (simp add: upt_conv_Cons map_Suc_upt del: upt_Suc)
  show ?case
    unfolding upt by (simp add: Cons.IH filter_map o_def)
qed

lemma spec_heading_issues_Cons0:
  "spec_heading_issues (prev # ls) =
     length (filter (\<lambda>i. (prev # ls) ! Suc i > (prev # ls) ! i + 1) [0..<length ls])"
proof -
  have "[1..<length (prev # ls)] = map Suc [0..<length ls]"
    by (simp add: map_Suc_upt)
  then show ?thesis
    by (simp add: spec_heading_issues_def filter_map o_def del: upt_Suc)
qed

text \<open>
  C5, as the code has it. The walk starts with \<open>lastLevel = 0\<close>, so the heading count
  is the number of positions of the level sequence, the first included, whose level exceeds
  the level before it by more than one, where the level before the first heading is 0: it
  is what the specification's rule gives on the sequence with a 0 put in front. The
  sequence \<open>[1,3,4]\<close> has exactly 1 issue and \<open>[1,2,3]\<close> has none.
\<close>

theorem hierarchyIssues_counts_jumps:
  "hierarchyIssues levels = spec_heading_issues (0 # levels) \<and>
   hierarchyIssues levels =
     length (filter (\<lambda>i. (0 # levels) ! Suc i > (0 # levels) ! i + 1) [0..<length levels]) \<and>
   hierarchyIssues [1, 3, 4] = 1 \<and>
   hierarchyIssues [1, 2, 3] = 0"
  using heading_walk_fst[of levels 0 0]
  by (simp add: hierarchyIssues_def spec_heading_issues_Cons0)

text \<open>
  C5, as the claim words it, compares each heading with the previous heading only. A page
  whose only heading is an \<open>h2\<close> has no position with a previous heading, and the
  code counts one issue for it.
\<close>

theorem hierarchyIssues_first_heading_counterexample:
  "hierarchyIssues [2] = 1 \<and> spec_heading_issues [2] = 0"
  by (simp add: hierarchyIssues_def spec_heading_issues_def)

text \<open>
  C7. The grade depends on the load time alone, with thresholds at 2000 ms and 4000 ms of
  the total load time: below 2000 ms it is \<open>excellent\<close>, from 2000 ms and below
  4000 ms it is \<open>good\<close>, from 4000 ms on it is \<open>needs-improvement\<close>; so
  1500 ms, 3000 ms and 5000 ms grade as \<open>excellent\<close>, \<open>good\<close> and
  \<open>needs-improvement\<close>.
\<close>

theorem performance_grade_thresholds:
  "(totalLoadTime t < 2000 \<longrightarrow> performance_grade t = ''excellent'') \<and>
   (2000 \<le> totalLoadTime t \<and> totalLoadTime t < 4000 \<longrightarrow> performance_grade t = ''good'') \<and>
   (4000 \<le> totalLoadTime t \<longrightarrow> performance_grade t = ''needs-improvement'') \<and>
   (totalLoadTime t = totalLoadTime t' \<longrightarrow> performance_grade t = performance_grade t') \<and>
   (totalLoadTime t = 1500 \<longrightarrow> performance_grade t = ''excellent'') \<and>
   (totalLoadTime t = 3000 \<longrightarrow> performance_grade t = ''good'') \<and>
   (totalLoadTime t = 5000 \<longrightarrow> performance_grade t = ''needs-improvement'')"
  by (auto simp: totalLoadTime_def performance_grade_def)

theorem performance_grade_thresholds_witness:
  "totalLoadTime (3 / 2) = 1500 \<and> performance_grade (3 / 2) = ''excellent'' \<and>
   totalLoadTime 3 = 3000 \<and> performance_grade 3 = ''good'' \<and>
   totalLoadTime 5 = 5000 \<and> performance_grade 5 = ''needs-improvement'' \<and>
   totalLoadTime 2 = 2000 \<and> performance_grade 2 = ''good'' \<and>
   totalLoadTime 4 = 4000 \<and> performance_grade 4 = ''needs-improvement''"
  using performance_grade_thresholds[of "3 / 2" "3 / 2"] performance_grade_thresholds[of 3 3]
    performance_grade_thresholds[of 5 5] performance_grade_thresholds[of 2 2]
    performance_grade_thresholds[of 4 4]
  by (simp add: totalLoadTime_def)

section \<open>The accessibility score\<close>

lemma py_round_bounds:
  "x - 1 / 2 \<le> of_int (py_round x) \<and> of_int (py_round x) \<le> x + 1 / 2"
  unfolding py_round_def Let_def by (auto; linarith)

lemma py_round_nearest: "\<bar>of_int (py_round x) - x\<bar> \<le> 1 / 2"
  using py_round_bounds[of x] by linarith

lemma py_round_of_int: "py_round (of_int n) = n"
  by (simp add: py_round_def)

lemma py_round_same_floor:
  assumes "x \<le> y" and "\<lfloor>x\<rfloor> = \<lfloor>y\<rfloor>"
  shows "py_round x \<le> py_round y"
  using assms unfolding py_round_def Let_def by (auto; linarith)

lemma py_round_floor_le: "\<lfloor>x\<rfloor> \<le> py_round x"
  unfolding py_round_def Let_def by auto

lemma py_round_le_floor_Suc: "py_round x \<le> \<lfloor>x\<rfloor> + 1"
  unfolding py_round_def Let_def by auto

lemma py_round_mono:
  assumes "x \<le> y"
  shows "py_round x \<le> py_round y"
proof (cases "\<lfloor>x\<rfloor> = \<lfloor>y\<rfloor>")
  case True
  with assms show ?thesis by (rule py_round_same_floor)
next
  case False
  from assms have "\<lfloor>x\<rfloor> \<le> \<lfloor>y\<rfloor>" by (rule floor_mono)
  with False have "\<lfloor>x\<rfloor> + 1 \<le> \<lfloor>y\<rfloor>" by simp
  with py_round_le_floor_Suc[of x] py_round_floor_le[of y] show ?thesis by linarith
qed

lemma count_true_eq: "count_true bs n = n + length (filter id bs)"
  by (induction bs arbitrary: n) auto

lemma count_true_le: "count_true bs 0 \<le> length bs"
  by (simp add: count_true_eq)

lemma float_rounding_mono: "float_rounding fl \<Longrightarrow> x \<le> y \<Longrightarrow> fl x \<le> fl y"
  by (simp add: float_rounding_def mono_def)

lemma float_rounding_fix: "float_rounding fl \<Longrightarrow> n \<le> 100 \<Longrightarrow> fl (real n) = real n"
  by (simp add: float_rounding_def)

lemma float_rounding_range:
  assumes fl: "float_rounding fl" and "0 \<le> x" and "x \<le> real n" and "n \<le> 100"
  shows "0 \<le> fl x \<and> fl x \<le> real n"
proof -
  have "fl 0 \<le> fl x" using fl assms(2) by (rule float_rounding_mono)
  moreover have "fl 0 = 0" using float_rounding_fix[OF fl, of 0] by simp
  moreover have "fl x \<le> fl (real n)" using fl assms(3) by (rule float_rounding_mono)
  moreover have "fl (real n) = real n" using fl assms(4) by (rule float_rounding_fix)
  ultimately show ?thesis by simp
qed

lemma score_mono_withAlt:
  assumes fl: "float_rounding fl" and "images_withAlt d \<le> a'"
  shows "accessibility_score fl d \<le> accessibility_score fl (d\<lparr>images_withAlt := a'\<rparr>)"
  using assms(2) unfolding accessibility_score_def Let_def
  by (auto intro!: float_rounding_mono[OF fl] add_mono mult_right_mono divide_right_mono)

lemma score_mono_labeled:
  assumes fl: "float_rounding fl" and "forms_labeled d \<le> l'"
  shows "accessibility_score fl d \<le> accessibility_score fl (d\<lparr>forms_labeled := l'\<rparr>)"
  using assms(2) unfolding accessibility_score_def Let_def
  by (auto intro!: float_rounding_mono[OF fl] add_mono mult_right_mono divide_right_mono)

lemma score_mono_landmarks:
  assumes fl: "float_rounding fl" and "navigation_landmarks d \<le> m'"
  shows "accessibility_score fl d \<le> accessibility_score fl (d\<lparr>navigation_landmarks := m'\<rparr>)"
  using assms(2) unfolding accessibility_score_def Let_def
  by (auto intro!: float_rounding_mono[OF fl] add_mono mult_right_mono divide_right_mono)

lemma coverage_points:
  assumes fl: "float_rounding fl" and "a \<le> t" and "0 < t" and "w \<le> 100"
  shows "0 \<le> fl (fl (real a / real t) * real w) \<and> fl (fl (real a / real t) * real w) \<le> real w"
proof -
  have q: "0 \<le> real a / real t" "real a / real t \<le> real 1"
    using assms(2,3) by simp_all
  have r: "0 \<le> fl (real a / real t) \<and> fl (real a / real t) \<le> real 1"
    using fl q by (rule float_rounding_range) simp
  then have "0 \<le> fl (real a / real t) * real w" "fl (real a / real t) * real w \<le> real w"
    by (simp_all add: mult_left_le_one_le mult_le_cancel_right1)
  with fl show ?thesis using assms(4) by (rule float_rounding_range)
qed

lemma fl_add_range:
  assumes fl: "float_rounding fl" and "0 \<le> x \<and> x \<le> real m" and "0 \<le> y \<and> y \<le> real k"
    and "m + k \<le> 100"
  shows "0 \<le> fl (x + y) \<and> fl (x + y) \<le> real (m + k)"
proof -
  from assms(2,3) have "0 \<le> x + y" "x + y \<le> real (m + k)" by simp_all
  with fl show ?thesis using assms(4) by (rule float_rounding_range)
qed

lemma accessibility_score_range:
  assumes fl: "float_rounding fl"
    and a: "images_withAlt d \<le> images_total d"
    and l: "forms_labeled d \<le> forms_total d"
  shows "0 \<le> accessibility_score fl d \<and> accessibility_score fl d \<le> 100"
proof -
  define s1 where "s1 = (if images_total d > 0
       then fl (0 + fl (fl (real (images_withAlt d) / real (images_total d)) * 20))
       else fl (0 + 20))"
  define s2 where "s2 = (if forms_total d > 0
       then fl (s1 + fl (fl (real (forms_labeled d) / real (forms_total d)) * 30))
       else fl (s1 + 30))"
  define s3 where "s3 = fl (s2 + real (min (navigation_landmarks d * 5) 20))"
  define s4 where "s4 = (if headings_total d > 0
       then fl (s3 + real_of_int (max 0 (20 - int (headings_hierarchyIssues d) * 5)))
       else s3)"
  define s5 where "s5 = (if navigation_focusableElements d > 0 then fl (s4 + 10) else s4)"
  have score: "accessibility_score fl d = s5"
    by (simp add: accessibility_score_def Let_def s1_def s2_def s3_def s4_def s5_def)
  have zero: "(0::real) \<le> 0 \<and> (0::real) \<le> real 0" by simp
  have r1: "0 \<le> s1 \<and> s1 \<le> real 20"
  proof (cases "images_total d > 0")
    case True
    have "0 \<le> fl (fl (real (images_withAlt d) / real (images_total d)) * real 20) \<and>
          fl (fl (real (images_withAlt d) / real (images_total d)) * real 20) \<le> real 20"
      using fl a True by (rule coverage_points) simp
    with fl zero have "0 \<le> fl (0 + fl (fl (real (images_withAlt d) / real (images_total d)) * real 20)) \<and>
       fl (0 + fl (fl (real (images_withAlt d) / real (images_total d)) * real 20)) \<le> real (0 + 20)"
      by (rule fl_add_range) simp
    with True show ?thesis by (simp add: s1_def)
  next
    case False
    have "fl (real 20) = real 20" using fl by (rule float_rounding_fix) simp
    with False show ?thesis by (simp add: s1_def)
  qed
  have r2: "0 \<le> s2 \<and> s2 \<le> real 50"
  proof (cases "forms_total d > 0")
    case True
    have "0 \<le> fl (fl (real (forms_labeled d) / real (forms_total d)) * real 30) \<and>
          fl (fl (real (forms_labeled d) / real (forms_total d)) * real 30) \<le> real 30"
      using fl l True by (rule coverage_points) simp
    with fl r1 have "0 \<le> fl (s1 + fl (fl (real (forms_labeled d) / real (forms_total d)) * real 30)) \<and>
       fl (s1 + fl (fl (real (forms_labeled d) / real (forms_total d)) * real 30)) \<le> real (20 + 30)"
      by (rule fl_add_range) simp
    with True show ?thesis by (simp add: s2_def)
  next
    case False
    have "(0::real) \<le> real 30 \<and> real 30 \<le> real 30" by simp
    with fl r1 have "0 \<le> fl (s1 + real 30) \<and> fl (s1 + real 30) \<le> real (20 + 30)"
      by (rule fl_add_range) simp
    with False show ?thesis by (simp add: s2_def)
  qed
  have r3: "0 \<le> s3 \<and> s3 \<le> real 70"
  proof -
    have "0 \<le> real (min (navigation_landmarks d * 5) 20) \<and>
          real (min (navigation_landmarks d * 5) 20) \<le> real 20"
      by simp
    with fl r2 have "0 \<le> fl (s2 + real (min (navigation_landmarks d * 5) 20)) \<and>
        fl (s2 + real (min (navigation_landmarks d * 5) 20)) \<le> real (50 + 20)"
      by (rule fl_add_range) simp
    then show ?thesis by (simp add: s3_def)
  qed
  have r4: "0 \<le> s4 \<and> s4 \<le> real 90"
  proof (cases "headings_total d > 0")
    case True
    have "0 \<le> real_of_int (max 0 (20 - int (headings_hierarchyIssues d) * 5)) \<and>
          real_of_int (max 0 (20 - int (headings_hierarchyIssues d) * 5)) \<le> real 20"
      by simp
    with fl r3 have "0 \<le> fl (s3 + real_of_int (max 0 (20 - int (headings_hierarchyIssues d) * 5))) \<and>
        fl (s3 + real_of_int (max 0 (20 - int (headings_hierarchyIssues d) * 5))) \<le> real (70 + 20)"
      by (rule fl_add_range) simp
    with True show ?thesis by (simp add: s4_def)
  next
    case False
    with r3 show ?thesis by (simp add: s4_def)
  qed
  have r5: "0 \<le> s5 \<and> s5 \<le> real 100"
  proof (cases "navigation_focusableElements d > 0")
    case True
    have "(0::real) \<le> real 10 \<and> real 10 \<le> real 10" by simp
    with fl r4 have "0 \<le> fl (s4 + real 10) \<and> fl (s4 + real 10) \<le> real (90 + 10)"
      by (rule fl_add_range) simp
    with True show ?thesis by (simp add: s5_def)
  next
    case False
    with r4 show ?thesis by (simp add: s5_def)
  qed
  with score show ?thesis by simp
qed

lemma score_field_range:
  assumes "0 \<le> accessibility_score fl d \<and> accessibility_score fl d \<le> 100"
  shows "0 \<le> score_field fl d \<and> score_field fl d \<le> 100"
proof -
  have "py_round (of_int 0) \<le> py_round (accessibility_score fl d)"
    using assms by (intro py_round_mono) simp
  moreover have "py_round (accessibility_score fl d) \<le> py_round (of_int 100)"
    using assms by (intro py_round_mono) simp
  ultimately show ?thesis
    unfolding py_round_of_int score_field_def by simp
qed

lemma collect_accessibility_bounds:
  "images_withAlt (collect_accessibility p) \<le> images_total (collect_accessibility p) \<and>
   forms_labeled (collect_accessibility p) \<le> forms_total (collect_accessibility p)"
  by (simp add: collect_accessibility_def count_true_le)

text \<open>
  C4. For every float rounding: with the other counts fixed, more images with alt text
  (same number of images), more labeled inputs (same number of inputs) or more landmarks
  never lower the score, before rounding and after it; the reported score lies in
  \<open>[0, 100]\<close> whenever the counts with alt text and with labels do not exceed their
  totals, as is the case for the counts taken from any page; and the reported score is an
  integer at distance at most one half from the computed sum.
\<close>

theorem accessibility_score_monotone_bounded:
  assumes fl: "float_rounding fl"
  shows "(images_withAlt d \<le> a' \<longrightarrow>
            accessibility_score fl d \<le> accessibility_score fl (d\<lparr>images_withAlt := a'\<rparr>) \<and>
            score_field fl d \<le> score_field fl (d\<lparr>images_withAlt := a'\<rparr>)) \<and>
         (forms_labeled d \<le> l' \<longrightarrow>
            accessibility_score fl d \<le> accessibility_score fl (d\<lparr>forms_labeled := l'\<rparr>) \<and>
            score_field fl d \<le> score_field fl (d\<lparr>forms_labeled := l'\<rparr>)) \<and>
         (navigation_landmarks d \<le> m' \<longrightarrow>
            accessibility_score fl d \<le> accessibility_score fl (d\<lparr>navigation_landmarks := m'\<rparr>) \<and>
            score_field fl d \<le> score_field fl (d\<lparr>navigation_landmarks := m'\<rparr>)) \<and>
         (images_withAlt d \<le> images_total d \<and> forms_labeled d \<le> forms_total d \<longrightarrow>
            0 \<le> score_field fl d \<and> score_field fl d \<le> 100) \<and>
         0 \<le> score_field fl (collect_accessibility p) \<and>
         score_field fl (collect_accessibility p) \<le> 100 \<and>
         \<bar>real_of_int (score_field fl d) - accessibility_score fl d\<bar> \<le> 1 / 2"
proof (intro conjI impI)
  assume "images_withAlt d \<le> a'"
  with fl show "accessibility_score fl d \<le> accessibility_score fl (d\<lparr>images_withAlt := a'\<rparr>)"
    by (rule score_mono_withAlt)
  then show "score_field fl d \<le> score_field fl (d\<lparr>images_withAlt := a'\<rparr>)"
    unfolding score_field_def by (rule py_round_mono)
next
  assume "forms_labeled d \<le> l'"
  with fl show "accessibility_score fl d \<le> accessibility_score fl (d\<lparr>forms_labeled := l'\<rparr>)"
    by (rule score_mono_labeled)
  then show "score_field fl d \<le> score_field fl (d\<lparr>forms_labeled := l'\<rparr>)"
    unfolding score_field_def by (rule py_round_mono)
next
  assume "navigation_landmarks d \<le> m'"
  with fl show "accessibility_score fl d \<le> accessibility_score fl (d\<lparr>navigation_landmarks := m'\<rparr>)"
    by (rule score_mono_landmarks)
  then show "score_field fl d \<le> score_field fl (d\<lparr>navigation_landmarks := m'\<rparr>)"
    unfolding score_field_def by (rule py_round_mono)
next
  assume b: "images_withAlt d \<le> images_total d \<and> forms_labeled d \<le> forms_total d"
  then have "0 \<le> accessibility_score fl d \<and> accessibility_score fl d \<le> 100"
    using fl by (intro accessibility_score_range) simp_all
  then have "0 \<le> score_field fl d \<and> score_field fl d \<le> 100"
    by (rule score_field_range)
  then show "0 \<le> score_field fl d" "score_field fl d \<le> 100" by simp_all
next
  have "0 \<le> accessibility_score fl (collect_accessibility p) \<and>
        accessibility_score fl (collect_accessibility p) \<le> 100"
    using fl collect_accessibility_bounds[of p] by (intro accessibility_score_range) simp_all
  then have "0 \<le> score_field fl (collect_accessibility p) \<and>
             score_field fl (collect_accessibility p) \<le> 100"
    by (rule score_field_range)
  then show "0 \<le> score_field fl (collect_accessibility p)"
    "score_field fl (collect_accessibility p) \<le> 100" by simp_all
next
  show "\<bar>real_of_int (score_field fl d) - accessibility_score fl d\<bar> \<le> 1 / 2"
    unfolding score_field_def by (rule py_round_nearest)
qed

theorem accessibility_score_monotone_bounded_witness:
  "float_rounding (\<lambda>x. x) \<and>
   score_field (\<lambda>x. x)
     \<lparr>images_total = 4, images_withAlt = 1, forms_total = 3, forms_labeled = 1,
      headings_total = 2, headings_hierarchyIssues = 1, navigation_focusableElements = 5,
      navigation_landmarks = 2, navigation_skipLinks = 0\<rparr> = 50 \<and>
   score_field (\<lambda>x. x)
     \<lparr>images_total = 4, images_withAlt = 3, forms_total = 3, forms_labeled = 1,
      headings_total = 2, headings_hierarchyIssues = 1, navigation_focusableElements = 5,
      navigation_landmarks = 2, navigation_skipLinks = 0\<rparr> = 60 \<and>
   score_field (\<lambda>x. x)
     \<lparr>images_total = 4, images_withAlt = 1, forms_total = 3, forms_labeled = 2,
      headings_total = 2, headings_hierarchyIssues = 1, navigation_focusableElements = 5,
      navigation_landmarks = 2, navigation_skipLinks = 0\<rparr> = 60 \<and>
   score_field (\<lambda>x. x)
     \<lparr>images_total = 4, images_withAlt = 1, forms_total = 3, forms_labeled = 1,
      headings_total = 2, headings_hierarchyIssues = 1, navigation_focusableElements = 5,
      navigation_landmarks = 3, navigation_skipLinks = 0\<rparr> = 55 \<and>
   0 \<le> score_field (\<lambda>x. x)
     (collect_accessibility
       \<lparr>imgs_alt = [True, False], controls_labeled = [False, True, True],
        heading_levels = [1, 3], focusable_count = 4, landmark_count = 1, skiplink_count = 0\<rparr>)"
proof -
  have fl: "float_rounding (\<lambda>x. x)"
    by (simp add: float_rounding_def mono_def)
  show ?thesis
    using fl accessibility_score_monotone_bounded [OF fl,
        of "\<lparr>images_total = 4, images_withAlt = 1, forms_total = 3, forms_labeled = 1,
      headings_total = 2, headings_hierarchyIssues = 1, navigation_focusableElements = 5,
      navigation_landmarks = 2, navigation_skipLinks = 0\<rparr>" 3 2 3
       "\<lparr>imgs_alt = [True, False], controls_labeled = [False, True, True],
        heading_levels = [1, 3], focusable_count = 4, landmark_count = 1, skiplink_count = 0\<rparr>"]
    by (simp add: score_field_def accessibility_score_def py_round_def)
qed

section \<open>The report file\<close>

lemma get_mui_component_total: "\<exists>s. get_mui_component t = Inr s"
proof (cases t)
  case None
  then show ?thesis by (simp add: get_mui_component_def)
next
  case (Some tg)
  then show ?thesis
    using mui_loop_shape[of "get_class tg"] by (auto simp: get_mui_component_def)
qed

lemma fmt_total: "\<exists>s. fmt pre (get_mui_component t) post = Inr s"
  using get_mui_component_total[of t] by (auto simp: fmt_def)

lemma write_all_Inr: "write_all (map Inr ss) content = (None, content @ concat ss)"
  by (induction ss arbitrary: content) auto

lemma write_all_extends: "\<exists>rest. snd (write_all ls content) = content @ rest"
proof (induction ls content rule: write_all.induct)
  case (1 content)
  show ?case by simp
next
  case (2 e rest content)
  show ?case by simp
next
  case (3 s rest content)
  then obtain r where "snd (write_all rest (content @ s)) = (content @ s) @ r" by blast
  then show ?case by simp
qed

lemma history_lines_written:
  "\<exists>ss. history_lines d rt ct = map Inr ss \<and> length ss = 6 \<and>
        hd ss = ''  - **History Page** (`/history`)\<newline>''"
proof -
  obtain s1 where s1: "fmt ''    - **Start Date Textbox:** `''
      (get_mui_component (start_date_textbox d)) ''`\<newline>'' = Inr s1"
    using fmt_total by blast
  obtain s2 where s2: "fmt ''    - **End Date Textbox:** `''
      (get_mui_component (end_date_textbox d)) ''`\<newline>'' = Inr s2"
    using fmt_total by blast
  obtain s3 where s3: "fmt ''    - **Reset Button:** `''
      (get_mui_component (reset_button d)) ''`\<newline>'' = Inr s3"
    using fmt_total by blast
  obtain s4 where s4: "fmt ''    - **Ready to Continue Table:** `''
      (get_mui_component rt) ''`\<newline>'' = Inr s4"
    using fmt_total by blast
  obtain s5 where s5: "fmt ''    - **Completed Decks Table:** `''
      (get_mui_component ct) ''`\<newline>'' = Inr s5"
    using fmt_total by blast
  have "history_lines d rt ct =
      map Inr [''  - **History Page** (`/history`)\<newline>'', s1, s2, s3, s4, s5]"
    unfolding history_lines_def s1 s2 s3 s4 s5 by simp
  then show ?thesis by (intro exI[of _ "[''  - **History Page** (`/history`)\<newline>'', s1, s2, s3, s4, s5]"]) simp
qed

lemma write_all_extends':
  "write_all ls content = (r, content') \<Longrightarrow> \<exists>rest. content' = content @ rest"
  using write_all_extends[of ls content] by simp

lemma history_parser_extends:
  "\<exists>rest. application_map (snd (history_parser soup (fs\<lparr>application_map := Some A\<rparr>))) = Some (A @ rest)"
  unfolding history_parser_def Let_def
  by (auto simp: open_a_def split: option.splits sum.splits prod.splits dest: write_all_extends')

lemma history_parser_completes:
  assumes "page_html fs = Some html"
    and "ready_to_continue_h6 (soup html) = Some rt"
    and "completed_decks_h6 (soup html) = Some ct"
    and "history_lines (soup html) rt ct = map Inr ss"
  shows "history_parser soup fs =
           (None, fs\<lparr>application_map := Some (open_a (application_map fs) @ concat ss)\<rparr>)"
  using assms
  by (simp add: history_parser_def find_next_table_def write_all_Inr)

lemma html_parser_fresh:
  assumes "page_html fs = Some html" and "header (dsoup html) = Some h"
    and "main_content (dsoup html) = Some m"
  shows "html_parser dsoup (fs\<lparr>application_map := old\<rparr>) =
           (fst (write_all (dashboard_lines h m) []),
            fs\<lparr>application_map := Some (snd (write_all (dashboard_lines h m) []))\<rparr>)"
  using assms by (simp add: html_parser_def open_w_def split: prod.splits)

text \<open>
  C8. The history script opens the report in append mode and never cuts what the file
  held. When it runs to its end (the page and both headings are found) on a file holding
  \<open>A\<close>, the file then holds \<open>A\<close> followed by the history section \<open>B\<close>, the six
  lines the script writes, the same \<open>B\<close> it leaves in a file that was absent; and however
  the script ends, the file holds \<open>A\<close> followed by what was written. Only the dashboard
  script starts afresh: once it opens the report, nothing of \<open>A\<close> is left, and the file
  holds what the script would write to an absent file.
\<close>

theorem history_parser_appends_html_parser_overwrites:
  "(page_html fs = Some html \<and> ready_to_continue_h6 (soup html) = Some rt \<and>
    completed_decks_h6 (soup html) = Some ct \<longrightarrow>
      (\<exists>ss. history_lines (soup html) rt ct = map Inr ss \<and> length ss = 6 \<and>
            hd ss = ''  - **History Page** (`/history`)\<newline>'' \<and>
            history_parser soup (fs\<lparr>application_map := Some A\<rparr>) =
              (None, fs\<lparr>application_map := Some (A @ concat ss)\<rparr>) \<and>
            history_parser soup (fs\<lparr>application_map := None\<rparr>) =
              (None, fs\<lparr>application_map := Some (concat ss)\<rparr>))) \<and>
   (\<exists>rest. application_map (snd (history_parser soup (fs\<lparr>application_map := Some A\<rparr>))) =
             Some (A @ rest)) \<and>
   (page_html fs = Some html \<and> header (dsoup html) = Some h \<and> main_content (dsoup html) = Some m \<longrightarrow>
      html_parser dsoup (fs\<lparr>application_map := Some A\<rparr>) =
        html_parser dsoup (fs\<lparr>application_map := None\<rparr>) \<and>
      application_map (snd (html_parser dsoup (fs\<lparr>application_map := Some A\<rparr>))) =
        Some (snd (write_all (dashboard_lines h m) [])))"
proof (intro conjI impI)
  assume a: "page_html fs = Some html \<and> ready_to_continue_h6 (soup html) = Some rt \<and>
    completed_decks_h6 (soup html) = Some ct"
  obtain ss where ss: "history_lines (soup html) rt ct = map Inr ss" "length ss = 6"
      "hd ss = ''  - **History Page** (`/history`)\<newline>''"
    using history_lines_written by blast
  have "history_parser soup (fs\<lparr>application_map := Some A\<rparr>) =
          (None, fs\<lparr>application_map := Some (A @ concat ss)\<rparr>)"
    using a ss(1)
      history_parser_completes[of "fs\<lparr>application_map := Some A\<rparr>" html soup rt ct ss]
    by (simp add: open_a_def)
  moreover have "history_parser soup (fs\<lparr>application_map := None\<rparr>) =
          (None, fs\<lparr>application_map := Some (concat ss)\<rparr>)"
    using a ss(1)
      history_parser_completes[of "fs\<lparr>application_map := None\<rparr>" html soup rt ct ss]
    by (simp add: open_a_def)
  ultimately show "\<exists>ss. history_lines (soup html) rt ct = map Inr ss \<and> length ss = 6 \<and>
            hd ss = ''  - **History Page** (`/history`)\<newline>'' \<and>
            history_parser soup (fs\<lparr>application_map := Some A\<rparr>) =
              (None, fs\<lparr>application_map := Some (A @ concat ss)\<rparr>) \<and>
            history_parser soup (fs\<lparr>application_map := None\<rparr>) =
              (None, fs\<lparr>application_map := Some (concat ss)\<rparr>)"
    using ss by blast
next
  show "\<exists>rest. application_map (snd (history_parser soup (fs\<lparr>application_map := Some A\<rparr>))) =
             Some (A @ rest)"
    by (rule history_parser_extends)
next
  assume a: "page_html fs = Some html \<and> header (dsoup html) = Some h \<and>
    main_content (dsoup html) = Some m"
  then show "html_parser dsoup (fs\<lparr>application_map := Some A\<rparr>) =
        html_parser dsoup (fs\<lparr>application_map := None\<rparr>)"
    by (simp add: html_parser_fresh[of fs html dsoup h m])
  from a show "application_map (snd (html_parser dsoup (fs\<lparr>application_map := Some A\<rparr>))) =
        Some (snd (write_all (dashboard_lines h m) []))"
    by (simp add: html_parser_fresh[of fs html dsoup h m])
qed

theorem history_parser_appends_html_parser_overwrites_witness:
  "history_parser
     (\<lambda>_. \<lparr>start_date_textbox = Some \<lparr>tag_class = Some [''MuiInputBase-input''], tag_string = None\<rparr>,
            end_date_textbox = None,
            reset_button = Some \<lparr>tag_class = Some [''btn'', ''MuiButton-root''], tag_string = Some ''Reset''\<rparr>,
            ready_to_continue_h6 = Some (Some \<lparr>tag_class = Some [''MuiTable-root''], tag_string = None\<rparr>),
            completed_decks_h6 = Some None\<rparr>)
     \<lparr>page_html = Some ''<html></html>'', application_map = Some ''- **VUE Dashboard** (`/`)\<newline>''\<rparr> =
   (None,
    \<lparr>page_html = Some ''<html></html>'',
     application_map = Some
       (''- **VUE Dashboard** (`/`)\<newline>'' @
        ''  - **History Page** (`/history`)\<newline>'' @
        ''    - **Start Date Textbox:** `MuiInputBase`\<newline>'' @
        ''    - **End Date Textbox:** `Unknown`\<newline>'' @
        ''    - **Reset Button:** `MuiButton`\<newline>'' @
        ''    - **Ready to Continue Table:** `MuiTable`\<newline>'' @
        ''    - **Completed Decks Table:** `Unknown`\<newline>'')\<rparr>) \<and>
   application_map (snd (html_parser
     (\<lambda>_. \<lparr>header = Some \<lparr>logo = None,
                            tabs = [\<lparr>tag_class = Some [''MuiTab-root''], tag_string = Some ''History''\<rparr>],
                            logout_button = None\<rparr>,
            main_content = Some \<lparr>search_bar = None, update_master_list_button = None,
                                 create_collection_deck_button = None, add_scc_button = None,
                                 sccs_table = Some \<lparr>tag_class = Some [''MuiTable-root''], tag_string = None\<rparr>\<rparr>\<rparr>)
     \<lparr>page_html = Some ''<html></html>'', application_map = Some ''old text''\<rparr>)) =
   Some (''- **VUE Dashboard** (`/`)\<newline>'' @
         ''  - **Header**\<newline>'' @
         ''    - **VUE Logo:** `Unknown`\<newline>'' @
         ''    - **Navigation Links:**\<newline>'' @
         ''      - **History:** `MuiTab`\<newline>'' @
         ''    - **Logout Button:** `Unknown`\<newline>'' @
         ''  - **Main Content Area**\<newline>'' @
         ''    - **Search SCCs...:** `Unknown`\<newline>'' @
         ''    - **\"Update Master List\" Button:** `Unknown`\<newline>'' @
         ''    - **\"Create Collection Deck\" Button:** `Unknown`\<newline>'' @
         ''    - **\"ADD SCC\" Button:** `Unknown`\<newline>'' @
         ''    - **SCCs Table:** `MuiTable`\<newline>'')"
  using history_parser_appends_html_parser_overwrites
    [of "\<lparr>page_html = Some ''<html></html>'', application_map = None\<rparr>" "''<html></html>''"
        "\<lambda>_. \<lparr>start_date_textbox = Some \<lparr>tag_class = Some [''MuiInputBase-input''], tag_string = None\<rparr>,
            end_date_textbox = None,
            reset_button = Some \<lparr>tag_class = Some [''btn'', ''MuiButton-root''], tag_string = Some ''Reset''\<rparr>,
            ready_to_continue_h6 = Some (Some \<lparr>tag_class = Some [''MuiTable-root''], tag_string = None\<rparr>),
            completed_decks_h6 = Some None\<rparr>"
        "Some \<lparr>tag_class = Some [''MuiTable-root''], tag_string = None\<rparr>" None
        "''- **VUE Dashboard** (`/`)\<newline>''"
        "\<lambda>_. \<lparr>header = Some \<lparr>logo = None,
                            tabs = [\<lparr>tag_class = Some [''MuiTab-root''], tag_string = Some ''History''\<rparr>],
                            logout_button = None\<rparr>,
            main_content = Some \<lparr>search_bar = None, update_master_list_button = None,
                                 create_collection_deck_button = None, add_scc_button = None,
                                 sccs_table = Some \<lparr>tag_class = Some [''MuiTable-root''], tag_string = None\<rparr>\<rparr>\<rparr>"
        "\<lparr>logo = None,
                            tabs = [\<lparr>tag_class = Some [''MuiTab-root''], tag_string = Some ''History''\<rparr>],
                            logout_button = None\<rparr>"
        "\<lparr>search_bar = None, update_master_list_button = None,
                                 create_collection_deck_button = None, add_scc_button = None,
                                 sccs_table = Some \<lparr>tag_class = Some [''MuiTable-root''], tag_string = None\<rparr>\<rparr>"]
  by (simp add: history_parser_def html_parser_def find_next_table_def history_lines_def
        dashboard_lines_def tab_line_def fmt_def str_opt_def open_a_def open_w_def
        get_mui_component_def get_class_def startswith_def index0_def)

section \<open>The interaction probe\<close>

lemma button_try_local:
  "button_try i b st =
     (fst (button_try i b \<lparr>results = [], calls = []\<rparr>),
      \<lparr>results = results st @ results (snd (button_try i b \<lparr>results = [], calls = []\<rparr>)),
       calls = calls st @ calls (snd (button_try i b \<lparr>results = [], calls = []\<rparr>))\<rparr>)"
  by (simp add: button_try_def Let_def do_call_def append_result_def
           split: sum.splits option.splits)

lemma probe_button_local:
  "probe_button i b st =
     \<lparr>results = results st @ results (button_alone i b),
      calls = calls st @ calls (button_alone i b)\<rparr>"
proof -
  obtain r d where rd: "button_try i b \<lparr>results = [], calls = []\<rparr> = (r, d)"
    by (cases "button_try i b \<lparr>results = [], calls = []\<rparr>")
  have "button_try i b st = (r, \<lparr>results = results st @ results d, calls = calls st @ calls d\<rparr>)"
    using button_try_local[of i b st] rd by simp
  then show ?thesis
    using rd by (cases r) (simp_all add: probe_button_def button_alone_def append_result_def)
qed

lemma button_loop_local:
  "button_loop i bs st =
     \<lparr>results = results st @ concat (map (\<lambda>(j, b). results (button_alone j b)) (enumerate i bs)),
      calls = calls st @ concat (map (\<lambda>(j, b). calls (button_alone j b)) (enumerate i bs))\<rparr>"
proof (induction bs arbitrary: i st)
  case Nil
  show ?case by simp
next
  case (Cons b bs)
  show ?case
    by (simp add: Cons.IH[of "Suc i"] probe_button_local[of i b st])
qed

lemma input_try_local:
  "input_try i b st =
     (fst (input_try i b \<lparr>results = [], calls = []\<rparr>),
      \<lparr>results = results st @ results (snd (input_try i b \<lparr>results = [], calls = []\<rparr>)),
       calls = calls st @ calls (snd (input_try i b \<lparr>results = [], calls = []\<rparr>))\<rparr>)"
  by (simp add: input_try_def Let_def do_call_def append_result_def
           split: sum.splits option.splits del: set_simps)

lemma probe_input_local:
  "probe_input i b st =
     \<lparr>results = results st @ results (input_alone i b),
      calls = calls st @ calls (input_alone i b)\<rparr>"
proof -
  obtain r d where rd: "input_try i b \<lparr>results = [], calls = []\<rparr> = (r, d)"
    by (cases "input_try i b \<lparr>results = [], calls = []\<rparr>")
  have "input_try i b st = (r, \<lparr>results = results st @ results d, calls = calls st @ calls d\<rparr>)"
    using input_try_local[of i b st] rd by simp
  then show ?thesis
    using rd by (cases r) (simp_all add: probe_input_def input_alone_def append_result_def)
qed

lemma input_loop_local:
  "input_loop i bs st =
     \<lparr>results = results st @ concat (map (\<lambda>(j, b). results (input_alone j b)) (enumerate i bs)),
      calls = calls st @ concat (map (\<lambda>(j, b). calls (input_alone j b)) (enumerate i bs))\<rparr>"
proof (induction bs arbitrary: i st)
  case Nil
  show ?case by simp
next
  case (Cons b bs)
  show ?case
    by (simp add: Cons.IH[of "Suc i"] probe_input_local[of i b st])
qed

lemma probe_buttons_results:
  "results (probe_buttons buttons) =
     concat (map (\<lambda>(j, b). results (button_alone j b)) (enumerate 0 (take 4 buttons)))"
  by (simp add: probe_buttons_def button_loop_local)

lemma probe_buttons_calls:
  "calls (probe_buttons buttons) =
     concat (map (\<lambda>(j, b). calls (button_alone j b)) (enumerate 0 (take 4 buttons)))"
  by (simp add: probe_buttons_def button_loop_local)

lemma probe_inputs_results:
  "results (probe_inputs inputs) =
     concat (map (\<lambda>(j, b). results (input_alone j b)) (enumerate 0 (take 3 inputs)))"
  by (simp add: probe_inputs_def input_loop_local)

lemma probe_inputs_calls:
  "calls (probe_inputs inputs) =
     concat (map (\<lambda>(j, b). calls (input_alone j b)) (enumerate 0 (take 3 inputs)))"
  by (simp add: probe_inputs_def input_loop_local)

lemma button_alone_first_call: "Text_content i \<in> set (calls (button_alone i b))"
  by (simp add: button_alone_def probe_button_def button_try_def Let_def do_call_def
        append_result_def split: sum.splits option.splits)

lemma input_alone_calls_hd:
  "calls (input_alone i b) \<noteq> [] \<and> hd (calls (input_alone i b)) = Get_attribute i ''type''"
  by (simp add: input_alone_def probe_input_def input_try_def Let_def do_call_def
        append_result_def split: sum.splits option.splits del: set_simps)

lemma input_alone_first_call: "Get_attribute i ''type'' \<in> set (calls (input_alone i b))"
  using input_alone_calls_hd[of i b] hd_in_set[of "calls (input_alone i b)"] by simp

lemma button_alone_raised:
  assumes "fst (button_try i b st) = Some e"
  shows "results (button_alone i b) =
           [[(''button'', PInt (int i + 1)), (''success'', PBool False),
             (''error'', PStr (take 100 (str_exn e)))]]"
proof -
  from assms have "fst (button_try i b \<lparr>results = [], calls = []\<rparr>) = Some e"
    using button_try_local[of i b st] by simp
  moreover have "results (snd (button_try i b \<lparr>results = [], calls = []\<rparr>)) = []"
    if "fst (button_try i b \<lparr>results = [], calls = []\<rparr>) = Some e"
    using that by (simp add: button_try_def Let_def do_call_def append_result_def
        split: sum.splits option.splits if_splits)
  ultimately show ?thesis
    by (cases "button_try i b \<lparr>results = [], calls = []\<rparr>")
       (simp add: button_alone_def probe_button_def append_result_def)
qed

lemma input_alone_raised:
  assumes "fst (input_try i b st) = Some e"
  shows "results (input_alone i b) =
           [[(''input'', PInt (int i + 1)), (''success'', PBool False),
             (''error'', PStr (take 100 (str_exn e)))]]"
proof -
  from assms have "fst (input_try i b \<lparr>results = [], calls = []\<rparr>) = Some e"
    using input_try_local[of i b st] by simp
  moreover have "results (snd (input_try i b \<lparr>results = [], calls = []\<rparr>)) = []"
    if "fst (input_try i b \<lparr>results = [], calls = []\<rparr>) = Some e"
    using that by (simp add: input_try_def Let_def do_call_def append_result_def
        split: sum.splits option.splits if_splits del: set_simps)
  ultimately show ?thesis
    by (cases "input_try i b \<lparr>results = [], calls = []\<rparr>")
       (simp add: input_alone_def probe_input_def append_result_def)
qed

lemma enumerate_member:
  "i < length xs \<Longrightarrow> (n + i, xs ! i) \<in> set (enumerate n xs)"
  by (metis nth_enumerate_eq nth_mem length_enumerate)

lemma take_nth_same: "i < length (take n xs) \<Longrightarrow> take n xs ! i = xs ! i"
  by simp

lemma button_alone_in_probe:
  assumes "i < length (take 4 buttons)"
  shows "set (results (button_alone i (buttons ! i))) \<subseteq> set (results (probe_buttons buttons))"
    and "set (calls (button_alone i (buttons ! i))) \<subseteq> set (calls (probe_buttons buttons))"
proof -
  have "(0 + i, take 4 buttons ! i) \<in> set (enumerate 0 (take 4 buttons))"
    using assms by (rule enumerate_member)
  then have m: "(i, buttons ! i) \<in> set (enumerate 0 (take 4 buttons))"
    using assms by simp
  show "set (results (button_alone i (buttons ! i))) \<subseteq> set (results (probe_buttons buttons))"
    unfolding probe_buttons_results using m by force
  show "set (calls (button_alone i (buttons ! i))) \<subseteq> set (calls (probe_buttons buttons))"
    unfolding probe_buttons_calls using m by force
qed

lemma input_alone_in_probe:
  assumes "i < length (take 3 inputs)"
  shows "set (results (input_alone i (inputs ! i))) \<subseteq> set (results (probe_inputs inputs))"
    and "set (calls (input_alone i (inputs ! i))) \<subseteq> set (calls (probe_inputs inputs))"
proof -
  have "(0 + i, take 3 inputs ! i) \<in> set (enumerate 0 (take 3 inputs))"
    using assms by (rule enumerate_member)
  then have m: "(i, inputs ! i) \<in> set (enumerate 0 (take 3 inputs))"
    using assms by simp
  show "set (results (input_alone i (inputs ! i))) \<subseteq> set (results (probe_inputs inputs))"
    unfolding probe_inputs_results using m by force
  show "set (calls (input_alone i (inputs ! i))) \<subseteq> set (calls (probe_inputs inputs))"
    unfolding probe_inputs_calls using m by force
qed

lemma button_alone_click_index:
  "Click i \<in> set (calls (button_alone j b)) \<Longrightarrow> i = j"
  by (simp add: button_alone_def probe_button_def button_try_def Let_def do_call_def
        append_result_def split: sum.splits option.splits if_splits)

lemma button_alone_result_index:
  "r \<in> set (results (button_alone j b)) \<Longrightarrow> map_of r ''button'' = Some (PInt (int j + 1))"
  by (auto simp add: button_alone_def probe_button_def button_try_def Let_def do_call_def
        append_result_def split: sum.splits option.splits if_splits)

lemma button_alone_disabled:
  assumes "text_content b = Inr (Some t)" and "is_enabled b = Inr False"
  shows "button_alone i b = \<lparr>results = [], calls = [Text_content i, Is_enabled i]\<rparr>"
  using assms
  by (simp add: button_alone_def probe_button_def button_try_def Let_def do_call_def slice_to_def)

text \<open>
  C2, as the code has it. A disabled button among the first four, whose text and enabled
  state were read, is not clicked, and the probe appends no record for it at all, neither
  a record of a skip nor one of a failure: the two reads are all that happens for it.
\<close>

theorem disabled_button_leaves_no_record:
  "i < length (take 4 buttons) \<and> text_content (buttons ! i) = Inr (Some t) \<and>
   is_enabled (buttons ! i) = Inr False \<longrightarrow>
     Click i \<notin> set (calls (probe_buttons buttons)) \<and>
     (\<forall>r \<in> set (results (probe_buttons buttons)). map_of r ''button'' \<noteq> Some (PInt (int i + 1))) \<and>
     button_alone i (buttons ! i) = \<lparr>results = [], calls = [Text_content i, Is_enabled i]\<rparr>"
proof (intro impI)
  assume a: "i < length (take 4 buttons) \<and> text_content (buttons ! i) = Inr (Some t) \<and>
   is_enabled (buttons ! i) = Inr False"
  then have alone: "button_alone i (buttons ! i) =
      \<lparr>results = [], calls = [Text_content i, Is_enabled i]\<rparr>"
    by (simp add: button_alone_disabled)
  have mem: "b = buttons ! j" if "(j, b) \<in> set (enumerate 0 (take 4 buttons))" for j b
    using that by (auto simp: in_set_enumerate_eq)
  have click: "Click i \<notin> set (calls (probe_buttons buttons))"
  proof
    assume "Click i \<in> set (calls (probe_buttons buttons))"
    then obtain j b where jb: "(j, b) \<in> set (enumerate 0 (take 4 buttons))"
        and c: "Click i \<in> set (calls (button_alone j b))"
      unfolding probe_buttons_calls by auto
    from c have "i = j" by (rule button_alone_click_index)
    with jb mem have "b = buttons ! i" by simp
    with c \<open>i = j\<close> alone show False by simp
  qed
  have recs: "\<forall>r \<in> set (results (probe_buttons buttons)).
      map_of r ''button'' \<noteq> Some (PInt (int i + 1))"
  proof
    fix r assume "r \<in> set (results (probe_buttons buttons))"
    then obtain j b where jb: "(j, b) \<in> set (enumerate 0 (take 4 buttons))"
        and c: "r \<in> set (results (button_alone j b))"
      unfolding probe_buttons_results by auto
    from c have k: "map_of r ''button'' = Some (PInt (int j + 1))"
      by (rule button_alone_result_index)
    have "j \<noteq> i"
    proof
      assume "j = i"
      with jb mem have "b = buttons ! i" by simp
      with c \<open>j = i\<close> alone show False by simp
    qed
    with k show "map_of r ''button'' \<noteq> Some (PInt (int i + 1))" by simp
  qed
  from click recs alone show "Click i \<notin> set (calls (probe_buttons buttons)) \<and>
     (\<forall>r \<in> set (results (probe_buttons buttons)). map_of r ''button'' \<noteq> Some (PInt (int i + 1))) \<and>
     button_alone i (buttons ! i) = \<lparr>results = [], calls = [Text_content i, Is_enabled i]\<rparr>"
    by blast
qed

text \<open>
  C2 as the claim words it asks for a record marked as skipped. Probing a single disabled
  button leaves \<open>interaction_results\<close> empty.
\<close>

theorem disabled_button_skip_record_counterexample:
  "results (probe_buttons
     [\<lparr>text_content = Inr (Some ''Save''), is_enabled = Inr False, screenshot_before = None,
       click = None, wait_after_click = None, screenshot_after = None\<rparr>]) = []"
  by (simp add: probe_buttons_def probe_button_def button_try_def Let_def do_call_def slice_to_def)

theorem disabled_button_leaves_no_record_witness:
  "probe_buttons
     [\<lparr>text_content = Inr (Some ''New''), is_enabled = Inr True, screenshot_before = None,
       click = None, wait_after_click = None, screenshot_after = None\<rparr>,
      \<lparr>text_content = Inr (Some ''Save''), is_enabled = Inr False, screenshot_before = None,
       click = None, wait_after_click = None, screenshot_after = None\<rparr>] =
   \<lparr>results = [[(''button'', PInt 1), (''text'', PStr ''New''), (''success'', PBool True)]],
    calls = [Text_content 0, Is_enabled 0, Screenshot_before 0, Click 0, Wait_for_timeout 750,
             Screenshot_after 0, Text_content 1, Is_enabled 1]\<rparr> \<and>
   Click 1 \<notin> set (calls (probe_buttons
     [\<lparr>text_content = Inr (Some ''New''), is_enabled = Inr True, screenshot_before = None,
       click = None, wait_after_click = None, screenshot_after = None\<rparr>,
      \<lparr>text_content = Inr (Some ''Save''), is_enabled = Inr False, screenshot_before = None,
       click = None, wait_after_click = None, screenshot_after = None\<rparr>]))"
  using disabled_button_leaves_no_record [of 1
     "[\<lparr>text_content = Inr (Some ''New''), is_enabled = Inr True, screenshot_before = None,
       click = None, wait_after_click = None, screenshot_after = None\<rparr>,
      \<lparr>text_content = Inr (Some ''Save''), is_enabled = Inr False, screenshot_before = None,
       click = None, wait_after_click = None, screenshot_after = None\<rparr>]" "''Save''"]
  by (simp add: probe_buttons_def probe_button_def button_try_def Let_def do_call_def
        slice_to_def append_result_def)

text \<open>
  C6. When the probe of one of the first four buttons, or of one of the first three
  inputs, raises an exception at any of its steps, the exception is caught: a failure
  record for that element, with the message cut to at most 100 characters, is in the
  results. The results are, element after element and in order, what each element gives
  when probed alone, so a failure changes nothing for the others; and every one of the
  first four buttons and the first three inputs is probed. With four buttons of which the
  second raises during the click, the results hold the records of buttons 1, 3 and 4 and
  the failure of button 2 with its message.
\<close>

theorem probe_isolates_element_failures:
  "(i < length (take 4 buttons) \<and> fst (button_try i (buttons ! i) st) = Some e \<longrightarrow>
      [(''button'', PInt (int i + 1)), (''success'', PBool False),
       (''error'', PStr (take 100 (str_exn e)))] \<in> set (results (probe_buttons buttons)) \<and>
      length (take 100 (str_exn e)) \<le> 100) \<and>
   (k < length (take 3 inputs) \<and> fst (input_try k (inputs ! k) st') = Some e' \<longrightarrow>
      [(''input'', PInt (int k + 1)), (''success'', PBool False),
       (''error'', PStr (take 100 (str_exn e')))] \<in> set (results (probe_inputs inputs)) \<and>
      length (take 100 (str_exn e')) \<le> 100) \<and>
   results (probe_buttons buttons) =
     concat (map (\<lambda>(j, b). results (button_alone j b)) (enumerate 0 (take 4 buttons))) \<and>
   results (probe_inputs inputs) =
     concat (map (\<lambda>(j, inp). results (input_alone j inp)) (enumerate 0 (take 3 inputs))) \<and>
   (\<forall>j < length (take 4 buttons). Text_content j \<in> set (calls (probe_buttons buttons))) \<and>
   (\<forall>j < length (take 3 inputs). Get_attribute j ''type'' \<in> set (calls (probe_inputs inputs))) \<and>
   results (probe_buttons
     [\<lparr>text_content = Inr (Some ''One''), is_enabled = Inr True, screenshot_before = None,
       click = None, wait_after_click = None, screenshot_after = None\<rparr>,
      \<lparr>text_content = Inr (Some ''Two''), is_enabled = Inr True, screenshot_before = None,
       click = Some (PlaywrightError ''Timeout 30000ms exceeded.''), wait_after_click = None,
       screenshot_after = None\<rparr>,
      \<lparr>text_content = Inr (Some ''Three''), is_enabled = Inr True, screenshot_before = None,
       click = None, wait_after_click = None, screenshot_after = None\<rparr>,
      \<lparr>text_content = Inr (Some ''Four''), is_enabled = Inr True, screenshot_before = None,
       click = None, wait_after_click = None, screenshot_after = None\<rparr>]) =
    [[(''button'', PInt 1), (''text'', PStr ''One''), (''success'', PBool True)],
     [(''button'', PInt 2), (''success'', PBool False),
      (''error'', PStr ''Timeout 30000ms exceeded.'')],
     [(''button'', PInt 3), (''text'', PStr ''Three''), (''success'', PBool True)],
     [(''button'', PInt 4), (''text'', PStr ''Four''), (''success'', PBool True)]]"
proof (intro conjI impI allI)
  assume a: "i < length (take 4 buttons) \<and> fst (button_try i (buttons ! i) st) = Some e"
  then have "results (button_alone i (buttons ! i)) =
      [[(''button'', PInt (int i + 1)), (''success'', PBool False),
        (''error'', PStr (take 100 (str_exn e)))]]"
    by (intro button_alone_raised[of i _ st]) simp
  with a button_alone_in_probe(1)[of i buttons]
  show "[(''button'', PInt (int i + 1)), (''success'', PBool False),
       (''error'', PStr (take 100 (str_exn e)))] \<in> set (results (probe_buttons buttons))"
    by simp
next
  show "length (take 100 (str_exn e)) \<le> 100" by simp
next
  assume a: "k < length (take 3 inputs) \<and> fst (input_try k (inputs ! k) st') = Some e'"
  then have "results (input_alone k (inputs ! k)) =
      [[(''input'', PInt (int k + 1)), (''success'', PBool False),
        (''error'', PStr (take 100 (str_exn e')))]]"
    by (intro input_alone_raised[of k _ st']) simp
  with a input_alone_in_probe(1)[of k inputs]
  show "[(''input'', PInt (int k + 1)), (''success'', PBool False),
       (''error'', PStr (take 100 (str_exn e')))] \<in> set (results (probe_inputs inputs))"
    by simp
next
  show "length (take 100 (str_exn e')) \<le> 100" by simp
next
  show "results (probe_buttons buttons) =
     concat (map (\<lambda>(j, b). results (button_alone j b)) (enumerate 0 (take 4 buttons)))"
    by (rule probe_buttons_results)
next
  show "results (probe_inputs inputs) =
     concat (map (\<lambda>(j, inp). results (input_alone j inp)) (enumerate 0 (take 3 inputs)))"
    by (rule probe_inputs_results)
next
  fix j assume "j < length (take 4 buttons)"
  then show "Text_content j \<in> set (calls (probe_buttons buttons))"
    using button_alone_in_probe(2)[of j buttons] button_alone_first_call[of j "buttons ! j"]
    by blast
next
  fix j assume "j < length (take 3 inputs)"
  then show "Get_attribute j ''type'' \<in> set (calls (probe_inputs inputs))"
    using input_alone_in_probe(2)[of j inputs] input_alone_first_call[of j "inputs ! j"]
    by blast
next
  show "results (probe_buttons
     [\<lparr>text_content = Inr (Some ''One''), is_enabled = Inr True, screenshot_before = None,
       click = None, wait_after_click = None, screenshot_after = None\<rparr>,
      \<lparr>text_content = Inr (Some ''Two''), is_enabled = Inr True, screenshot_before = None,
       click = Some (PlaywrightError ''Timeout 30000ms exceeded.''), wait_after_click = None,
       screenshot_after = None\<rparr>,
      \<lparr>text_content = Inr (Some ''Three''), is_enabled = Inr True, screenshot_before = None,
       click = None, wait_after_click = None, screenshot_after = None\<rparr>,
      \<lparr>text_content = Inr (Some ''Four''), is_enabled = Inr True, screenshot_before = None,
       click = None, wait_after_click = None, screenshot_after = None\<rparr>]) =
    [[(''button'', PInt 1), (''text'', PStr ''One''), (''success'', PBool True)],
     [(''button'', PInt 2), (''success'', PBool False),
      (''error'', PStr ''Timeout 30000ms exceeded.'')],
     [(''button'', PInt 3), (''text'', PStr ''Three''), (''success'', PBool True)],
     [(''button'', PInt 4), (''text'', PStr ''Four''), (''success'', PBool True)]]"
    by (simp add: probe_buttons_def probe_button_def button_try_def Let_def do_call_def
        slice_to_def append_result_def)
qed

theorem probe_isolates_element_failures_witness:
  "fst (button_try 0
         \<lparr>text_content = Inr None, is_enabled = Inr True, screenshot_before = None,
          click = None, wait_after_click = None, screenshot_after = None\<rparr>
         \<lparr>results = [], calls = []\<rparr>) =
     Some (TypeError (CHR 0x27 # ''NoneType'' @ CHR 0x27 # '' object is not subscriptable'')) \<and>
   probe_buttons
     [\<lparr>text_content = Inr None, is_enabled = Inr True, screenshot_before = None,
       click = None, wait_after_click = None, screenshot_after = None\<rparr>,
      \<lparr>text_content = Inr (Some ''Go''), is_enabled = Inr True, screenshot_before = None,
       click = None, wait_after_click = None, screenshot_after = None\<rparr>] =
     \<lparr>results =
        [[(''button'', PInt 1), (''success'', PBool False),
          (''error'', PStr (CHR 0x27 # ''NoneType'' @ CHR 0x27 # '' object is not subscriptable''))],
         [(''button'', PInt 2), (''text'', PStr ''Go''), (''success'', PBool True)]],
      calls = [Text_content 0, Is_enabled 0, Text_content 1, Is_enabled 1, Screenshot_before 1,
               Click 1, Wait_for_timeout 750, Screenshot_after 1]\<rparr> \<and>
   fst (input_try 0
         \<lparr>attribute_type = Inr (Some ''text''), attribute_placeholder = Inr None,
          fill = Some (PlaywrightError (replicate 120 (CHR ''x''))), wait_after_fill = None,
          input_value = Inr ''test value''\<rparr>
         \<lparr>results = [], calls = []\<rparr>) = Some (PlaywrightError (replicate 120 (CHR ''x''))) \<and>
   probe_inputs
     [\<lparr>attribute_type = Inr (Some ''text''), attribute_placeholder = Inr None,
       fill = Some (PlaywrightError (replicate 120 (CHR ''x''))), wait_after_fill = None,
       input_value = Inr ''test value''\<rparr>,
      \<lparr>attribute_type = Inr None, attribute_placeholder = Inr (Some ''Search''),
       fill = None, wait_after_fill = None, input_value = Inr ''test value''\<rparr>] =
     \<lparr>results =
        [[(''input'', PInt 1), (''success'', PBool False),
          (''error'', PStr (replicate 100 (CHR ''x'')))],
         [(''input'', PInt 2), (''type'', PNone), (''success'', PBool True),
          (''testValue'', PStr ''test value'')]],
      calls = [Get_attribute 0 ''type'', Get_attribute 0 ''placeholder'', Fill 0 ''test value'',
               Get_attribute 1 ''type'', Get_attribute 1 ''placeholder'', Fill 1 ''test value'',
               Wait_for_timeout 300, Input_value 1]\<rparr>"
  using probe_isolates_element_failures [of 0
     "[\<lparr>text_content = Inr None, is_enabled = Inr True, screenshot_before = None,
       click = None, wait_after_click = None, screenshot_after = None\<rparr>,
      \<lparr>text_content = Inr (Some ''Go''), is_enabled = Inr True, screenshot_before = None,
       click = None, wait_after_click = None, screenshot_after = None\<rparr>]"
     "\<lparr>results = [], calls = []\<rparr>"
     "TypeError (CHR 0x27 # ''NoneType'' @ CHR 0x27 # '' object is not subscriptable'')"
     0
     "[\<lparr>attribute_type = Inr (Some ''text''), attribute_placeholder = Inr None,
       fill = Some (PlaywrightError (replicate 120 (CHR ''x''))), wait_after_fill = None,
       input_value = Inr ''test value''\<rparr>,
      \<lparr>attribute_type = Inr None, attribute_placeholder = Inr (Some ''Search''),
       fill = None, wait_after_fill = None, input_value = Inr ''test value''\<rparr>]"
     "\<lparr>results = [], calls = []\<rparr>"
     "PlaywrightError (replicate 120 (CHR ''x''))"]
  by (simp add: probe_buttons_def probe_button_def button_try_def probe_inputs_def
        probe_input_def input_try_def Let_def do_call_def slice_to_def append_result_def
        py_opt_str_def)

section \<open>The header check and the browser frame\<close>

lemma total_issues_zero:
  "total_issues env = 0 \<longleftrightarrow>
     (\<forall>h \<in> set headers_to_check. text_matches env h = 1) \<and> thead_count env = 1"
proof -
  have a: "filter (\<lambda>(h, c). c = 0) (header_counts env) = [] \<longleftrightarrow>
        (\<forall>h \<in> set headers_to_check. text_matches env h \<noteq> 0)"
    by (auto simp: header_counts_def filter_empty_conv)
  have b: "filter (\<lambda>(h, c). c > 1) (header_counts env) = [] \<longleftrightarrow>
        (\<forall>h \<in> set headers_to_check. \<not> text_matches env h > 1)"
    by (auto simp: header_counts_def filter_empty_conv)
  have c: "(\<forall>h \<in> set headers_to_check. text_matches env h = 1) \<longleftrightarrow>
        (\<forall>h \<in> set headers_to_check. text_matches env h \<noteq> 0) \<and>
        (\<forall>h \<in> set headers_to_check. \<not> text_matches env h > 1)"
    by (metis One_nat_def less_one linorder_neqE_nat nat_neq_iff)
  show ?thesis
    unfolding c a[symmetric] b[symmetric]
    by (auto simp: total_issues_def Let_def)
qed

lemma history_main_exit_0:
  "history_main env = Inr 0 \<longleftrightarrow>
     start_result env = None \<and> launch_result env = None \<and> new_page_result env = None \<and>
     close_result env = None \<and> goto_result env = None \<and> screenshot_result env = None \<and>
     (\<exists>v. headers_in_thead env = Inr v) \<and>
     (\<forall>h \<in> set headers_to_check. text_matches env h = 1) \<and> thead_count env = 1"
  unfolding total_issues_zero[symmetric]
  by (auto simp: history_main_def test_history_table_def playwright_exit_def finally_close_def
        history_handled_def history_try_def
      split: option.splits sum.splits raised.splits if_splits)

text \<open>
  C3. The exit status is 0 exactly when nothing raised, each of the seven header texts was
  counted once and the page has one \<open>thead\<close>: the outcome of the location check,
  \<open>headers_in_thead\<close>, is computed and printed but takes no part in
  \<open>total_issues\<close>. On a page where each header text occurs exactly once and the only
  \<open>thead\<close> is empty, so that no header is inside the table header structure, the
  location check gives \<open>False\<close> and the script exits with status 0.
\<close>

theorem header_check_passes_with_headers_outside_thead:
  "history_main
     \<lparr>start_result = None, launch_result = None, new_page_result = None, goto_result = None,
      screenshot_result = None, text_matches = (\<lambda>header. 1), thead_count = 1,
      thead_text_content = Inr (Some ''''), table_count = 1, close_result = None\<rparr> = Inr 0 \<and>
   headers_in_thead
     \<lparr>start_result = None, launch_result = None, new_page_result = None, goto_result = None,
      screenshot_result = None, text_matches = (\<lambda>header. 1), thead_count = 1,
      thead_text_content = Inr (Some ''''), table_count = 1, close_result = None\<rparr> =
     Inr (Some False)"
  by (simp add: history_main_def test_history_table_def playwright_exit_def finally_close_def
        history_handled_def history_try_def headers_in_thead_def total_issues_def
        header_counts_def headers_to_check_def Let_def)

lemma ux_handled_eq: "ux_handled env = ux_body_result env"
  by (simp add: ux_handled_def split: sum.splits raised.splits)

text \<open>
  C9. In both scripts, a run that reaches the \<open>try\<close> ends with
  \<open>browser.close()\<close> called after it and before the Playwright context is left, and
  with the browser closed, whether the body returned (normal completion), raised an
  \<open>Exception\<close> (caught: the header check returns \<open>False\<close>, the UX test prints and
  raises it again) or was left by an exception that no handler catches. A run that fails
  after the launch and before the \<open>try\<close> never calls \<open>browser.close()\<close>; its
  browser is ended when the Playwright context is left. So at the end of every run the
  browser that was launched is no longer open.
\<close>

theorem browser_released_on_every_exit_path:
  "(start_result env = None \<and> launch_result env = None \<and> new_page_result env = None \<and>
    close_result env = None \<longrightarrow>
      test_history_table env =
        \<lparr>returned = history_handled env,
         events = [Playwright_start, Launch, New_page, Try_block, Browser_close, Playwright_stop],
         browser = Closed\<rparr>) \<and>
   (history_try env = Inr v \<longrightarrow> history_handled env = Inr v) \<and>
   (history_try env = Inl (Error e) \<longrightarrow> history_handled env = Inr False) \<and>
   (history_try env = Inl Interrupt \<longrightarrow> history_handled env = Inl Interrupt) \<and>
   (ux_start_result uenv = None \<and> ux_launch_result uenv = None \<and>
    ux_new_context_result uenv = None \<and> ux_new_page_result uenv = None \<and>
    ux_close_result uenv = None \<longrightarrow>
      test_collection_app_ux uenv =
        \<lparr>returned = ux_body_result uenv,
         events = [Playwright_start, Launch, New_context, New_page, Try_block, Browser_close,
                   Playwright_stop],
         browser = Closed\<rparr>) \<and>
   (Try_block \<in> set (events (test_history_table env)) \<longrightarrow>
      events (test_history_table env) =
        [Playwright_start, Launch, New_page, Try_block, Browser_close, Playwright_stop]) \<and>
   (Try_block \<in> set (events (test_collection_app_ux uenv)) \<longrightarrow>
      events (test_collection_app_ux uenv) =
        [Playwright_start, Launch, New_context, New_page, Try_block, Browser_close,
         Playwright_stop]) \<and>
   (start_result env = None \<and> launch_result env = None \<longrightarrow>
      browser (test_history_table env) = Closed \<or> browser (test_history_table env) = Killed) \<and>
   (ux_start_result uenv = None \<and> ux_launch_result uenv = None \<longrightarrow>
      browser (test_collection_app_ux uenv) = Closed \<or>
      browser (test_collection_app_ux uenv) = Killed) \<and>
   browser (test_history_table env) \<noteq> Open \<and>
   browser (test_collection_app_ux uenv) \<noteq> Open"
proof (intro conjI impI)
  assume "start_result env = None \<and> launch_result env = None \<and> new_page_result env = None \<and>
    close_result env = None"
  then show "test_history_table env =
        \<lparr>returned = history_handled env,
         events = [Playwright_start, Launch, New_page, Try_block, Browser_close, Playwright_stop],
         browser = Closed\<rparr>"
    by (simp add: test_history_table_def playwright_exit_def finally_close_def)
next
  assume "history_try env = Inr v"
  then show "history_handled env = Inr v" by (simp add: history_handled_def)
next
  assume "history_try env = Inl (Error e)"
  then show "history_handled env = Inr False" by (simp add: history_handled_def)
next
  assume "history_try env = Inl Interrupt"
  then show "history_handled env = Inl Interrupt" by (simp add: history_handled_def)
next
  assume "ux_start_result uenv = None \<and> ux_launch_result uenv = None \<and>
    ux_new_context_result uenv = None \<and> ux_new_page_result uenv = None \<and>
    ux_close_result uenv = None"
  then show "test_collection_app_ux uenv =
        \<lparr>returned = ux_body_result uenv,
         events = [Playwright_start, Launch, New_context, New_page, Try_block, Browser_close,
                   Playwright_stop],
         browser = Closed\<rparr>"
    by (simp add: test_collection_app_ux_def playwright_exit_def finally_close_def ux_handled_eq)
next
  assume "Try_block \<in> set (events (test_history_table env))"
  then show "events (test_history_table env) =
        [Playwright_start, Launch, New_page, Try_block, Browser_close, Playwright_stop]"
    by (simp add: test_history_table_def playwright_exit_def finally_close_def
          split: option.splits)
next
  assume "Try_block \<in> set (events (test_collection_app_ux uenv))"
  then show "events (test_collection_app_ux uenv) =
        [Playwright_start, Launch, New_context, New_page, Try_block, Browser_close,
         Playwright_stop]"
    by (simp add: test_collection_app_ux_def playwright_exit_def finally_close_def
          split: option.splits)
next
  assume "start_result env = None \<and> launch_result env = None"
  then show "browser (test_history_table env) = Closed \<or> browser (test_history_table env) = Killed"
    by (simp add: test_history_table_def playwright_exit_def finally_close_def
          split: option.splits)
next
  assume "ux_start_result uenv = None \<and> ux_launch_result uenv = None"
  then show "browser (test_collection_app_ux uenv) = Closed \<or>
      browser (test_collection_app_ux uenv) = Killed"
    by (simp add: test_collection_app_ux_def playwright_exit_def finally_close_def
          split: option.splits)
next
  show "browser (test_history_table env) \<noteq> Open"
    by (simp add: test_history_table_def playwright_exit_def finally_close_def
          split: option.splits)
next
  show "browser (test_collection_app_ux uenv) \<noteq> Open"
    by (simp add: test_collection_app_ux_def playwright_exit_def finally_close_def
          split: option.splits)
qed

theorem browser_released_on_every_exit_path_witness:
  "test_history_table
     \<lparr>start_result = None, launch_result = None, new_page_result = None,
      goto_result = Some (Error (PlaywrightError ''net::ERR_CONNECTION_REFUSED'')),
      screenshot_result = None, text_matches = (\<lambda>header. 0), thead_count = 0,
      thead_text_content = Inr None, table_count = 0, close_result = None\<rparr> =
     \<lparr>returned = Inr False,
      events = [Playwright_start, Launch, New_page, Try_block, Browser_close, Playwright_stop],
      browser = Closed\<rparr> \<and>
   test_collection_app_ux
     \<lparr>ux_start_result = None, ux_launch_result = None, ux_new_context_result = None,
      ux_new_page_result = None,
      ux_body_result = (Inl (Error (PlaywrightError ''Timeout 30000ms exceeded.'')) :: raised + unit),
      ux_close_result = None\<rparr> =
     \<lparr>returned = Inl (Error (PlaywrightError ''Timeout 30000ms exceeded.'')),
      events = [Playwright_start, Launch, New_context, New_page, Try_block, Browser_close,
                Playwright_stop],
      browser = Closed\<rparr>"
proof -
  define env where "env =
     \<lparr>start_result = None, launch_result = None, new_page_result = None,
      goto_result = Some (Error (PlaywrightError ''net::ERR_CONNECTION_REFUSED'')),
      screenshot_result = None, text_matches = (\<lambda>header::string. 0::nat), thead_count = 0,
      thead_text_content = Inr None, table_count = 0, close_result = None\<rparr>"
  define uenv where "uenv =
     \<lparr>ux_start_result = None, ux_launch_result = None, ux_new_context_result = None,
      ux_new_page_result = None,
      ux_body_result = (Inl (Error (PlaywrightError ''Timeout 30000ms exceeded.'')) :: raised + unit),
      ux_close_result = None\<rparr>"
  note t = browser_released_on_every_exit_path
      [of env False "PlaywrightError ''net::ERR_CONNECTION_REFUSED''" uenv]
  have e: "start_result env = None \<and> launch_result env = None \<and> new_page_result env = None \<and>
      close_result env = None"
    by (simp add: env_def)
  have tr: "history_try env = Inl (Error (PlaywrightError ''net::ERR_CONNECTION_REFUSED''))"
    by (simp add: env_def history_try_def)
  have u: "ux_start_result uenv = None \<and> ux_launch_result uenv = None \<and>
      ux_new_context_result uenv = None \<and> ux_new_page_result uenv = None \<and>
      ux_close_result uenv = None"
    by (simp add: uenv_def)
  have h1: "test_history_table env =
        \<lparr>returned = history_handled env,
         events = [Playwright_start, Launch, New_page, Try_block, Browser_close, Playwright_stop],
         browser = Closed\<rparr>"
    using t[THEN conjunct1] e by (rule mp)
  have h2: "history_handled env = Inr False"
    using t[THEN conjunct2, THEN conjunct2, THEN conjunct1] tr by (rule mp)
  have h3: "test_collection_app_ux uenv =
        \<lparr>returned = ux_body_result uenv,
         events = [Playwright_start, Launch, New_context, New_page, Try_block, Browser_close,
                   Playwright_stop],
         browser = Closed\<rparr>"
    using t[THEN conjunct2, THEN conjunct2, THEN conjunct2, THEN conjunct2, THEN conjunct1] u
    by (rule mp)
  have h4: "ux_body_result uenv = Inl (Error (PlaywrightError ''Timeout 30000ms exceeded.''))"
    by (simp add: uenv_def)
  show ?thesis
    using h1 h2 h3 h4 unfolding env_def uenv_def by simp
qed

end
